theory Spec2Isabelle
  imports
    Complex_Main
    "HOL-Library.AList"
    "HOL-Library.Sublist"
    "HOL-Library.Product_Lexorder"
    "HOL-Library.List_Lexorder"
    "HOL-Library.Char_ord"
begin

section \<open>Values, documents and exceptions\<close>

text \<open>
  The program moves JSON-like Python values around: parsed response bodies, query
  parameters and the documents of the store. \<open>JInt\<close> and \<open>JFloat\<close> are Python's
  \<open>int\<close> and \<open>float\<close> (floats are idealised as real numbers), \<open>JTime\<close> is a
  \<open>datetime\<close> (an instant, counted in microseconds; the range limits of
  \<open>datetime\<close> are not modelled), \<open>JId\<close> is the store's \<open>ObjectId\<close>. A Python \<open>dict\<close> is an association list in insertion order:
  \<open>d[k] = v\<close> is \<open>AList.update k v d\<close> (in place when the key is there, appended
  otherwise), \<open>del d[k]\<close> is \<open>AList.delete k d\<close>, \<open>d.get(k)\<close> is \<open>map_of d k\<close>.
\<close>

datatype json =
    JNull
  | JBool bool
  | JInt int
  | JFloat real
  | JStr string
  | JArr "json list"
  | JObj "(string \<times> json) list"
  | JTime int
  | JId nat

type_synonym doc = "(string \<times> json) list"

text \<open>
  Exceptions are values. \<open>HTTPException\<close> carries \<open>status_code\<close> and \<open>detail\<close>;
  \<open>RequestException\<close> and \<open>ModelError\<close> carry the message \<open>str(e)\<close> that the HTTP
  library or the classifier gave; the others are raised by the interpreter.
\<close>

datatype pyerr =
    HTTPException int string
  | RequestException string
  | ModelError string
  | TypeError
  | AttributeError
  | KeyError string
  | IndexError
  | ZeroDivisionError

text \<open>
  What the \<open>requests\<close> calls of one fetch (\<open>get\<close>, \<open>raise_for_status\<close>, \<open>json\<close>)
  come to: a \<open>RequestException\<close> with its message, or the parsed body.
\<close>

datatype http_outcome = RequestFailed string | Parsed json

section \<open>The environment and the state\<close>

text \<open>
  Everything outside the repository is a parameter, collected in \<open>env\<close>:
  \<^item> \<open>clock k\<close> is what the \<open>k\<close>-th call of \<open>datetime.utcnow()\<close> returns;
  \<^item> \<open>http_get n url params\<close> is the outcome of the \<open>n\<close>-th outbound request;
  \<^item> \<open>finbert text\<close> is the tokenizer and the forward pass of the pre-trained
    classifier: the logits, or the message of the exception they raise;
  \<^item> \<open>isoformat\<close> is \<open>datetime.isoformat\<close>, \<open>py_repr\<close> is \<open>str()\<close> of a value
    that is not a string, \<open>None\<close> or a boolean, \<open>exc_text\<close> is \<open>str(e)\<close> of an
    exception the interpreter raised.

  The state \<open>world\<close> holds the collections of the document store by name (a collection
  that was never written is empty), the store's next fresh \<open>ObjectId\<close>, the number of
  clock readings taken so far and the log of outbound requests (url and query
  parameters). The lazily created client handle of \<open>get_database\<close> holds no data and
  is left out; store operations themselves are taken to succeed. The result of a handler
  is the value the handler function returns, or the exception it raises; what the web
  framework does with either is outside the model.
\<close>

record env =
  clock :: "nat \<Rightarrow> int"
  http_get :: "nat \<Rightarrow> string \<Rightarrow> doc option \<Rightarrow> http_outcome"
  finbert :: "string \<Rightarrow> string + real list"
  isoformat :: "int \<Rightarrow> string"
  py_repr :: "json \<Rightarrow> string"
  exc_text :: "pyerr \<Rightarrow> string"

record world =
  colls :: "string \<Rightarrow> doc list"
  next_id :: nat
  ticks :: nat
  outbound :: "(string \<times> doc option) list"

definition utcnow :: "env \<Rightarrow> world \<Rightarrow> int \<times> world" where
  "utcnow e w = (clock e (ticks w), w\<lparr>ticks := Suc (ticks w)\<rparr>)"

section \<open>The document store\<close>

text \<open>
  The store orders values of different types by type first (null and missing fields
  lowest, then numbers, strings, documents, arrays, object ids, booleans, dates), then
  by value. \<open>bson_key\<close> maps a field to a key with that order; documents and arrays
  are not compared further among themselves.
\<close>

fun bson_key :: "json option \<Rightarrow> nat \<times> real \<times> string" where
  "bson_key None = (2, 0, [])"
| "bson_key (Some JNull) = (2, 0, [])"
| "bson_key (Some (JInt i)) = (3, real_of_int i, [])"
| "bson_key (Some (JFloat r)) = (3, r, [])"
| "bson_key (Some (JStr s)) = (4, 0, s)"
| "bson_key (Some (JObj kv)) = (5, 0, [])"
| "bson_key (Some (JArr xs)) = (6, 0, [])"
| "bson_key (Some (JId n)) = (8, real n, [])"
| "bson_key (Some (JBool b)) = (9, (if b then 1 else 0), [])"
| "bson_key (Some (JTime t)) = (10, real_of_int t, [])"

text \<open>
  \<open>sort=[(field, -1)]\<close>: descending by the field. The store leaves the order of
  documents with equal keys open; here they stay in insertion order.
\<close>

primrec insort_desc :: "('a \<Rightarrow> 'k::linorder) \<Rightarrow> 'a \<Rightarrow> 'a list \<Rightarrow> 'a list" where
  "insort_desc f x [] = [x]"
| "insort_desc f x (y # ys) =
     (if f x < f y then y # insort_desc f x ys else x # y # ys)"

definition sort_desc :: "('a \<Rightarrow> 'k::linorder) \<Rightarrow> 'a list \<Rightarrow> 'a list" where
  "sort_desc f xs = foldr (insort_desc f) xs []"

text \<open>
  A query document \<open>{k: v, ...}\<close> with scalar values selects the documents whose
  field \<open>k\<close> equals \<open>v\<close>, for each of its entries; the empty query selects all.
\<close>

definition matches :: "doc \<Rightarrow> doc \<Rightarrow> bool" where
  "matches query d = list_all (\<lambda>(k, v). map_of d k = Some v) query"

definition find_sorted :: "doc \<Rightarrow> string \<Rightarrow> doc list \<Rightarrow> doc list" where
  "find_sorted query field ds =
     sort_desc (\<lambda>d. bson_key (map_of d field)) (filter (matches query) ds)"

text \<open>
  \<open>cursor.limit(n)\<close>: the driver documents a limit of 0 as no limit, and sends a
  negative limit as its absolute value.
\<close>

definition cursor_limit :: "int \<Rightarrow> 'a list \<Rightarrow> 'a list" where
  "cursor_limit n xs = (if n = 0 then xs else take (nat \<bar>n\<bar>) xs)"

text \<open>\<open>find_one(sort=...)\<close>: the first document in that order, \<open>None\<close> when there is none.\<close>

definition find_one_sorted :: "doc \<Rightarrow> string \<Rightarrow> doc list \<Rightarrow> doc option" where
  "find_one_sorted query field ds =
     (case find_sorted query field ds of [] \<Rightarrow> None | d # _ \<Rightarrow> Some d)"

text \<open>
  An insert gives the document an \<open>_id\<close> when it has none (the driver adds the key to
  the caller's dict, so the caller sees it too) and appends it to the collection.
\<close>

definition assign_id :: "world \<Rightarrow> doc \<Rightarrow> doc \<times> world" where
  "assign_id w d =
     (if map_of d ''_id'' \<noteq> None then (d, w)
      else (AList.update ''_id'' (JId (next_id w)) d, w\<lparr>next_id := Suc (next_id w)\<rparr>))"

definition insert_one :: "world \<Rightarrow> string \<Rightarrow> doc \<Rightarrow> doc \<times> world" where
  "insert_one w c d =
     (let (d', w1) = assign_id w d
      in (d', w1\<lparr>colls := (colls w1)(c := colls w1 c @ [d'])\<rparr>))"

fun assign_ids :: "world \<Rightarrow> doc list \<Rightarrow> doc list \<times> world" where
  "assign_ids w [] = ([], w)"
| "assign_ids w (d # ds) =
     (let (d', w1) = assign_id w d; (ds', w2) = assign_ids w1 ds in (d' # ds', w2))"

definition insert_many :: "world \<Rightarrow> string \<Rightarrow> doc list \<Rightarrow> doc list \<times> world" where
  "insert_many w c ds =
     (let (ds', w1) = assign_ids w ds
      in (ds', w1\<lparr>colls := (colls w1)(c := colls w1 c @ ds')\<rparr>))"

section \<open>database.py: the Store Gateway\<close>

definition MARKET_DATA_COLLECTION :: string where
  "MARKET_DATA_COLLECTION = ''market_data''"

definition NEWS_COLLECTION :: string where
  "NEWS_COLLECTION = ''news''"

definition SENTIMENT_COLLECTION :: string where
  "SENTIMENT_COLLECTION = ''sentiment''"

definition TRADES_COLLECTION :: string where
  "TRADES_COLLECTION = ''trades''"

text \<open>
  The writers return the record as the caller's dict holds it after the call (stamped,
  with its \<open>_id\<close>) and the new state; the readers return what they read.
  \<open>store_news\<close> is only ever given a list, so its \<open>isinstance\<close> test holds.
\<close>

definition store_market_data :: "env \<Rightarrow> world \<Rightarrow> doc \<Rightarrow> doc \<times> world" where
  "store_market_data e w data =
     (let (now, w1) = utcnow e w
      in insert_one w1 MARKET_DATA_COLLECTION (AList.update ''timestamp'' (JTime now) data))"

definition get_latest_market_data :: "world \<Rightarrow> doc option" where
  "get_latest_market_data w =
     find_one_sorted [] ''timestamp'' (colls w MARKET_DATA_COLLECTION)"

fun stamp_items :: "env \<Rightarrow> world \<Rightarrow> doc list \<Rightarrow> doc list \<times> world" where
  "stamp_items e w [] = ([], w)"
| "stamp_items e w (item # items) =
     (let (now, w1) = utcnow e w;
          (items', w2) = stamp_items e w1 items
      in (AList.update ''stored_at'' (JTime now) item # items', w2))"

definition store_news :: "env \<Rightarrow> world \<Rightarrow> doc list \<Rightarrow> doc list \<times> world" where
  "store_news e w news_items =
     (let (stamped, w1) = stamp_items e w news_items
      in if length stamped > 0 then insert_many w1 NEWS_COLLECTION stamped
         else (stamped, w1))"


definition store_sentiment :: "env \<Rightarrow> world \<Rightarrow> string \<Rightarrow> string \<Rightarrow> real \<Rightarrow> doc \<times> world" where
  "store_sentiment e w coin text score =
     (let (now, w1) = utcnow e w
      in insert_one w1 SENTIMENT_COLLECTION
           [(''coin'', JStr coin), (''text'', JStr text),
            (''sentiment_score'', JFloat score), (''timestamp'', JTime now)])"

definition get_sentiment_history :: "world \<Rightarrow> string \<Rightarrow> int \<Rightarrow> doc list" where
  "get_sentiment_history w coin limit =
     cursor_limit limit
       (find_sorted [(''coin'', JStr coin)] ''timestamp'' (colls w SENTIMENT_COLLECTION))"

text \<open>
  The trading router that fixes the parameter types is not among the sources; user id,
  coin and action are strings, amount and price numbers. An omitted \<open>user_id\<close> or
  \<open>limit\<close> is \<open>None\<close> here and takes the default of the signature
  (\<open>user_id=None, limit=20\<close>). \<open>if user_id:\<close> is Python's truth test: \<open>None\<close>
  and the empty string fail it.
\<close>

definition record_trade ::
  "env \<Rightarrow> world \<Rightarrow> string \<Rightarrow> string \<Rightarrow> string \<Rightarrow> real \<Rightarrow> real \<Rightarrow> doc \<times> world" where
  "record_trade e w user_id coin action amount price =
     (let (now, w1) = utcnow e w
      in insert_one w1 TRADES_COLLECTION
           [(''user_id'', JStr user_id), (''coin'', JStr coin), (''action'', JStr action),
            (''amount'', JFloat amount), (''price'', JFloat price),
            (''timestamp'', JTime now)])"

definition get_trade_history :: "world \<Rightarrow> string option \<Rightarrow> int option \<Rightarrow> doc list" where
  "get_trade_history w user_id limit =
     (let lim = (case limit of None \<Rightarrow> 20 | Some n \<Rightarrow> n);
          query = (case user_id of
                     None \<Rightarrow> []
                   | Some u \<Rightarrow> if u \<noteq> [] then AList.update ''user_id'' (JStr u) [] else [])
      in cursor_limit lim (find_sorted query ''timestamp'' (colls w TRADES_COLLECTION)))"

text \<open>The calls a handler can make on the gateway, and the state each leaves.\<close>

datatype gateway_call =
    Store_market_data doc
  | Get_latest_market_data
  | Store_news "doc list"
  | Get_recent_news int
  | Store_sentiment string string real
  | Get_sentiment_history string int
  | Record_trade string string string real real
  | Get_trade_history "string option" "int option"

fun gateway_step :: "env \<Rightarrow> world \<Rightarrow> gateway_call \<Rightarrow> world" where
  "gateway_step e w (Store_market_data data) = snd (store_market_data e w data)"
| "gateway_step e w Get_latest_market_data = w"
| "gateway_step e w (Store_news items) = snd (store_news e w items)"
| "gateway_step e w (Get_recent_news limit) = w"
| "gateway_step e w (Store_sentiment coin text score) = snd (store_sentiment e w coin text score)"
| "gateway_step e w (Get_sentiment_history coin limit) = w"
| "gateway_step e w (Record_trade u c a amount price) = snd (record_trade e w u c a amount price)"
| "gateway_step e w (Get_trade_history user_id limit) = w"

section \<open>Python's strings and dynamic values\<close>

text \<open>
  Strings are byte strings here: \<open>upper\<close>, \<open>lower\<close> and \<open>strip\<close> act on ASCII
  letters and ASCII white space and leave other bytes alone.
\<close>

fun split_on :: "char \<Rightarrow> string \<Rightarrow> string list" where
  "split_on c [] = [[]]"
| "split_on c (x # xs) =
     (if x = c then [] # split_on c xs
      else (case split_on c xs of [] \<Rightarrow> [[x]] | y # ys \<Rightarrow> (x # y) # ys))"

definition is_space :: "char \<Rightarrow> bool" where
  "is_space c = (of_char c \<in> {9, 10, 11, 12, 13, 28, 29, 30, 31, 32 :: nat})"

definition strip :: "string \<Rightarrow> string" where
  "strip s = rev (dropWhile is_space (rev (dropWhile is_space s)))"

definition upper_char :: "char \<Rightarrow> char" where
  "upper_char c =
     (case map_of (zip ''abcdefghijklmnopqrstuvwxyz'' ''ABCDEFGHIJKLMNOPQRSTUVWXYZ'') c of
        Some u \<Rightarrow> u | None \<Rightarrow> c)"


definition upper :: "string \<Rightarrow> string" where
  "upper s = map upper_char s"


fun join :: "string \<Rightarrow> string list \<Rightarrow> string" where
  "join sep [] = []"
| "join sep [x] = x"
| "join sep (x # y # ys) = x @ sep @ join sep (y # ys)"

primrec is_substring :: "string \<Rightarrow> string \<Rightarrow> bool" where
  "is_substring sub [] = (sub = [])"
| "is_substring sub (c # cs) = (prefix sub (c # cs) \<or> is_substring sub cs)"

fun digits :: "nat \<Rightarrow> string" where
  "digits n =
     (if n < 10 then [''0123456789'' ! n]
      else digits (n div 10) @ [''0123456789'' ! (n mod 10)])"

definition str_int :: "int \<Rightarrow> string" where
  "str_int i = (if i < 0 then CHR ''-'' # digits (nat (- i)) else digits (nat i))"

text \<open>\<open>str(v)\<close>, as an f-string formats a value.\<close>

definition py_str :: "env \<Rightarrow> json \<Rightarrow> string" where
  "py_str e v =
     (case v of
        JStr s \<Rightarrow> s
      | JNull \<Rightarrow> ''None''
      | JBool b \<Rightarrow> (if b then ''True'' else ''False'')
      | JInt i \<Rightarrow> str_int i
      | _ \<Rightarrow> py_repr e v)"

text \<open>\<open>str(e)\<close> of a caught exception.\<close>

definition str_exc :: "env \<Rightarrow> pyerr \<Rightarrow> string" where
  "str_exc e err =
     (case err of
        RequestException m \<Rightarrow> m
      | ModelError m \<Rightarrow> m
      | _ \<Rightarrow> exc_text e err)"

text \<open>Sequencing of steps that may raise: the first exception ends the computation.\<close>

definition bindE :: "pyerr + 'a \<Rightarrow> ('a \<Rightarrow> pyerr + 'b) \<Rightarrow> pyerr + 'b" where
  "bindE m f = (case m of Inl err \<Rightarrow> Inl err | Inr x \<Rightarrow> f x)"

text \<open>
  The operations the handlers apply to values whose type they do not check:
  \<open>s in x\<close> for a string \<open>s\<close>, \<open>x.get(k, default)\<close>, \<open>x[k]\<close>, \<open>for item in x\<close>,
  \<open>x.items()\<close>, \<open>x[:100]\<close>, and the number a comparison with a float sees.
\<close>

definition py_in :: "string \<Rightarrow> json \<Rightarrow> pyerr + bool" where
  "py_in s x =
     (case x of
        JStr t \<Rightarrow> Inr (is_substring s t)
      | JArr xs \<Rightarrow> Inr (JStr s \<in> set xs)
      | JObj kv \<Rightarrow> Inr (map_of kv s \<noteq> None)
      | _ \<Rightarrow> Inl TypeError)"

definition py_get :: "json \<Rightarrow> string \<Rightarrow> json \<Rightarrow> pyerr + json" where
  "py_get x k dflt =
     (case x of
        JObj kv \<Rightarrow> Inr (case map_of kv k of None \<Rightarrow> dflt | Some v \<Rightarrow> v)
      | _ \<Rightarrow> Inl AttributeError)"

definition py_getitem :: "json \<Rightarrow> string \<Rightarrow> pyerr + json" where
  "py_getitem x k =
     (case x of
        JObj kv \<Rightarrow> (case map_of kv k of None \<Rightarrow> Inl (KeyError k) | Some v \<Rightarrow> Inr v)
      | _ \<Rightarrow> Inl TypeError)"

definition py_iter :: "json \<Rightarrow> pyerr + json list" where
  "py_iter x =
     (case x of
        JArr xs \<Rightarrow> Inr xs
      | JObj kv \<Rightarrow> Inr (map (\<lambda>(k, v). JStr k) kv)
      | JStr s \<Rightarrow> Inr (map (\<lambda>c. JStr [c]) s)
      | _ \<Rightarrow> Inl TypeError)"

definition py_items :: "json \<Rightarrow> pyerr + (string \<times> json) list" where
  "py_items x = (case x of JObj kv \<Rightarrow> Inr kv | _ \<Rightarrow> Inl AttributeError)"

definition py_slice100 :: "json \<Rightarrow> pyerr + json" where
  "py_slice100 x =
     (case x of
        JStr s \<Rightarrow> Inr (JStr (take 100 s))
      | JArr xs \<Rightarrow> Inr (JArr (take 100 xs))
      | _ \<Rightarrow> Inl TypeError)"

definition py_num :: "json \<Rightarrow> real option" where
  "py_num x =
     (case x of
        JInt i \<Rightarrow> Some (real_of_int i)
      | JFloat r \<Rightarrow> Some r
      | JBool b \<Rightarrow> Some (if b then 1 else 0)
      | _ \<Rightarrow> None)"


text \<open>\<open>[coin.strip().upper() for coin in coins.split(",")]\<close>\<close>

definition coin_list_of :: "string \<Rightarrow> string list" where
  "coin_list_of coins = map (\<lambda>coin. upper (strip coin)) (split_on CHR '','' coins)"

section \<open>routers/market\_data.py and routers/news.py: the Provider Client\<close>

text \<open>
  \<open>fetch_from_coinmarketcap\<close> is the same function in both routers. It sends one
  request (logged with its url and parameters; the two fixed headers are not kept) and
  turns a \<open>RequestException\<close> into the \<open>HTTPException\<close> of the source.
\<close>

definition fetch_from_coinmarketcap ::
  "env \<Rightarrow> world \<Rightarrow> string \<Rightarrow> doc option \<Rightarrow> (pyerr + json) \<times> world" where
  "fetch_from_coinmarketcap e w endpoint params =
     (let base_url = ''https://pro-api.coinmarketcap.com/v1'';
          url = base_url @ ''/'' @ endpoint;
          w1 = w\<lparr>outbound := outbound w @ [(url, params)]\<rparr>
      in case http_get e (length (outbound w)) url params of
           RequestFailed m \<Rightarrow>
             (Inl (HTTPException 500 (''Error fetching data from CoinMarketCap: '' @ m)), w1)
         | Parsed body \<Rightarrow> (Inr body, w1))"

section \<open>routers/market\_data.py: GET /market-data\<close>

definition usd_field :: "json \<Rightarrow> string \<Rightarrow> pyerr + json" where
  "usd_field coin_data k =
     bindE (py_getitem coin_data ''quote'') (\<lambda>q.
     bindE (py_getitem q ''USD'') (\<lambda>usd. py_getitem usd k))"

definition quote_entry :: "json \<Rightarrow> pyerr + doc" where
  "quote_entry coin_data =
     bindE (py_getitem coin_data ''name'') (\<lambda>name.
     bindE (py_getitem coin_data ''symbol'') (\<lambda>symbol.
     bindE (usd_field coin_data ''price'') (\<lambda>price.
     bindE (usd_field coin_data ''percent_change_1h'') (\<lambda>c1h.
     bindE (usd_field coin_data ''percent_change_24h'') (\<lambda>c24h.
     bindE (usd_field coin_data ''percent_change_7d'') (\<lambda>c7d.
     bindE (usd_field coin_data ''market_cap'') (\<lambda>cap.
     bindE (usd_field coin_data ''volume_24h'') (\<lambda>vol.
       Inr [(''name'', name), (''symbol'', symbol), (''price'', price),
            (''percent_change_1h'', c1h), (''percent_change_24h'', c24h),
            (''percent_change_7d'', c7d), (''market_cap'', cap),
            (''volume_24h'', vol)]))))))))"

fun reshape_quotes :: "(string \<times> json) list \<Rightarrow> doc \<Rightarrow> pyerr + doc" where
  "reshape_quotes [] acc = Inr acc"
| "reshape_quotes ((symbol, coin_data) # rest) acc =
     bindE (quote_entry coin_data) (\<lambda>entry.
       reshape_quotes rest (AList.update symbol (JObj entry) acc))"

definition market_data_miss ::
  "env \<Rightarrow> world \<Rightarrow> string \<Rightarrow> int \<Rightarrow> (pyerr + doc) \<times> world" where
  "market_data_miss e w symbols limit =
     (let symbol_list = map strip (split_on CHR '','' symbols);
          params = [(''symbol'', JStr (join '','' symbol_list)), (''limit'', JInt limit),
                    (''convert'', JStr ''USD'')];
          (r, w1) = fetch_from_coinmarketcap e w ''cryptocurrency/quotes/latest'' (Some params)
      in case bindE r (\<lambda>data.
                bindE (py_in ''data'' data) (\<lambda>has_data.
                  if has_data
                  then bindE (py_getitem data ''data'') (\<lambda>dd.
                       bindE (py_items dd) (\<lambda>items. reshape_quotes items []))
                  else Inr [])) of
           Inl err \<Rightarrow> (Inl err, w1)
         | Inr result_data \<Rightarrow>
             (let (result, w2) =
                    store_market_data e w1 [(''data'', JObj result_data), (''timestamp'', JNull)]
              in (Inr result, w2)))"

text \<open>
  \<open>if cached_data:\<close> holds for a document that was found and is not the empty dict.
\<close>

definition get_market_data ::
  "env \<Rightarrow> world \<Rightarrow> string \<Rightarrow> int \<Rightarrow> bool \<Rightarrow> (pyerr + doc) \<times> world" where
  "get_market_data e w symbols limit use_cache =
     (case (if use_cache then get_latest_market_data w else None) of
        Some cached_data \<Rightarrow>
          if cached_data \<noteq> []
          then (Inr (if map_of cached_data ''_id'' \<noteq> None
                     then AList.delete ''_id'' cached_data else cached_data), w)
          else market_data_miss e w symbols limit
      | None \<Rightarrow> market_data_miss e w symbols limit)"

section \<open>routers/sentiment.py: the Sentiment Scorer\<close>

text \<open>
  \<open>torch.nn.functional.softmax\<close> over the logits of the one input text:
  the exponentials, divided by their sum.
\<close>

definition softmax :: "real list \<Rightarrow> real list" where
  "softmax xs = map (\<lambda>x. exp x / sum_list (map exp xs)) xs"

text \<open>\<open>raw_scores\<close> holds the probabilities in the order negative, neutral, positive.\<close>

record sentiment_result =
  sentiment_score :: real
  sentiment_label :: string
  raw_scores :: "real \<times> real \<times> real"

definition analyze_text_sentiment :: "env \<Rightarrow> string \<Rightarrow> pyerr + sentiment_result" where
  "analyze_text_sentiment e text =
     (case finbert e text of
        Inl m \<Rightarrow> Inl (ModelError m)
      | Inr logits \<Rightarrow>
          (let scores = softmax logits
           in if length scores \<le> 2 then Inl IndexError
              else (let score = scores ! 2 - scores ! 0;
                        label = (if score > 0.2 then ''positive''
                                 else if score < - 0.2 then ''negative''
                                 else ''neutral'')
                    in Inr \<lparr>sentiment_score = score, sentiment_label = label,
                            raw_scores = (scores ! 0, scores ! 1, scores ! 2)\<rparr>)))"

section \<open>routers/sentiment.py: POST /analyze-sentiment\<close>

definition analyze_sentiment ::
  "env \<Rightarrow> world \<Rightarrow> string \<Rightarrow> string \<Rightarrow> (pyerr + doc) \<times> world" where
  "analyze_sentiment e w text coin0 =
     (let coin = upper coin0
      in case analyze_text_sentiment e text of
           Inl err \<Rightarrow>
             (Inl (HTTPException 500 (''Error analyzing sentiment: '' @ str_exc e err)), w)
         | Inr r \<Rightarrow>
             (let (stored, w1) = store_sentiment e w coin text (sentiment_score r);
                  (now, w2) = utcnow e w1
              in (Inr [(''coin'', JStr coin), (''text'', JStr text),
                       (''sentiment_score'', JFloat (sentiment_score r)),
                       (''sentiment_label'', JStr (sentiment_label r)),
                       (''timestamp'', JStr (isoformat e now))], w2)))"

section \<open>routers/sentiment.py: GET /coin-sentiment/\{coin\}\<close>

text \<open>
  One round of the loop over the history: drop \<open>_id\<close>, and give the record a label
  when it has none. Comparing a score that is not a number with a float raises
  \<open>TypeError\<close>.
\<close>

definition format_item :: "doc \<Rightarrow> pyerr + doc" where
  "format_item item0 =
     (let item = (if map_of item0 ''_id'' \<noteq> None then AList.delete ''_id'' item0 else item0)
      in if map_of item ''sentiment_label'' = None
         then (case py_num (case map_of item ''sentiment_score'' of
                              None \<Rightarrow> JInt 0 | Some v \<Rightarrow> v) of
                 None \<Rightarrow> Inl TypeError
               | Some score \<Rightarrow>
                   if score > 0.2
                   then Inr (AList.update ''sentiment_label'' (JStr ''positive'') item)
                   else if score < - 0.2
                   then Inr (AList.update ''sentiment_label'' (JStr ''negative'') item)
                   else Inr (AList.update ''sentiment_label'' (JStr ''neutral'') item))
         else Inr item)"

fun format_history :: "doc list \<Rightarrow> doc list \<Rightarrow> pyerr + doc list" where
  "format_history [] formatted_history = Inr formatted_history"
| "format_history (item # items) formatted_history =
     bindE (format_item item) (\<lambda>item'. format_history items (formatted_history @ [item']))"

definition get_coin_sentiment :: "world \<Rightarrow> string \<Rightarrow> int \<Rightarrow> pyerr + doc" where
  "get_coin_sentiment w coin0 days =
     (let coin = upper coin0;
          sentiment_history = get_sentiment_history w coin (days * 10)
      in if sentiment_history = []
         then Inr [(''coin'', JStr coin), (''sentiment_history'', JArr [])]
         else bindE (format_history sentiment_history []) (\<lambda>formatted_history.
                Inr [(''coin'', JStr coin),
                     (''sentiment_history'', JArr (map JObj formatted_history))]))"

section \<open>routers/sentiment.py: GET /analyze-news-sentiment\<close>

text \<open>
  The text scored for an article: its title, and the first 100 characters of its
  description.
\<close>

definition article_text :: "env \<Rightarrow> json \<Rightarrow> pyerr + string" where
  "article_text e article =
     bindE (py_get article ''title'' (JStr [])) (\<lambda>title.
     bindE (py_get article ''description'' (JStr [])) (\<lambda>description.
     bindE (py_slice100 description) (\<lambda>head.
       Inr (py_str e title @ ''. '' @ py_str e head))))"

definition scored_article :: "json \<Rightarrow> sentiment_result \<Rightarrow> pyerr + doc" where
  "scored_article article r =
     bindE (py_get article ''title'' JNull) (\<lambda>title.
     bindE (py_get article ''url'' JNull) (\<lambda>url.
     bindE (py_get article ''published_at'' JNull) (\<lambda>published_at.
       Inr [(''title'', title), (''url'', url), (''published_at'', published_at),
            (''sentiment_score'', JFloat (sentiment_score r)),
            (''sentiment_label'', JStr (sentiment_label r))])))"

text \<open>
  The loop over the articles of one coin. A score that was stored before a later
  article raises stays in the store.
\<close>

fun score_articles ::
  "env \<Rightarrow> world \<Rightarrow> string \<Rightarrow> json list \<Rightarrow> doc list \<Rightarrow> (pyerr + doc list) \<times> world" where
  "score_articles e w coin [] coin_results = (Inr coin_results, w)"
| "score_articles e w coin (article # rest) coin_results =
     (case article_text e article of
        Inl err \<Rightarrow> (Inl err, w)
      | Inr text \<Rightarrow>
          (case analyze_text_sentiment e text of
             Inl err \<Rightarrow> (Inl err, w)
           | Inr r \<Rightarrow>
               (let (stored, w1) = store_sentiment e w coin text (sentiment_score r)
                in case scored_article article r of
                     Inl err \<Rightarrow> (Inl err, w1)
                   | Inr item \<Rightarrow> score_articles e w1 coin rest (coin_results @ [item]))))"

text \<open>\<open>item["sentiment_score"]\<close> of an entry of \<open>coin_results\<close>, which always has one.\<close>

definition item_score :: "doc \<Rightarrow> real" where
  "item_score item = (case map_of item ''sentiment_score'' of Some (JFloat r) \<Rightarrow> r | _ \<Rightarrow> 0)"

definition coin_summary :: "doc list \<Rightarrow> doc" where
  "coin_summary coin_results =
     (if coin_results \<noteq> []
      then (let avg_sentiment =
                  sum_list (map item_score coin_results) / real (length coin_results)
            in [(''articles'', JArr (map JObj coin_results)),
                (''average_sentiment'', JFloat avg_sentiment),
                (''overall_sentiment'',
                   JStr (if avg_sentiment > 0.2 then ''positive''
                         else if avg_sentiment < - 0.2 then ''negative''
                         else ''neutral''))])
      else [(''articles'', JArr []), (''average_sentiment'', JInt 0),
            (''overall_sentiment'', JStr ''neutral'')])"

text \<open>
  The body of the \<open>try\<close> for one coin: the request to the news handler over the
  loopback interface (an outbound request like any other; what the news handler does
  to the store while serving it belongs to that other request), then the scoring.
\<close>

definition news_sentiment_try ::
  "env \<Rightarrow> world \<Rightarrow> string \<Rightarrow> int \<Rightarrow> (pyerr + doc) \<times> world" where
  "news_sentiment_try e w coin limit =
     (let url = ''http://localhost:8000/api/crypto-news?coins='' @ coin
                  @ ''&limit='' @ str_int limit;
          w1 = w\<lparr>outbound := outbound w @ [(url, None)]\<rparr>
      in case http_get e (length (outbound w)) url None of
           RequestFailed m \<Rightarrow> (Inl (RequestException m), w1)
         | Parsed news_data \<Rightarrow>
             (case bindE (py_get news_data ''news'' (JArr [])) py_iter of
                Inl err \<Rightarrow> (Inl err, w1)
              | Inr articles \<Rightarrow>
                  (case score_articles e w1 coin articles [] of
                     (Inl err, w2) \<Rightarrow> (Inl err, w2)
                   | (Inr coin_results, w2) \<Rightarrow> (Inr (coin_summary coin_results), w2))))"

text \<open>The \<open>try\<close> with its \<open>except Exception\<close>: what is stored under the coin's key.\<close>

definition coin_entry :: "env \<Rightarrow> world \<Rightarrow> string \<Rightarrow> int \<Rightarrow> doc \<times> world" where
  "coin_entry e w coin limit =
     (case news_sentiment_try e w coin limit of
        (Inr entry, w1) \<Rightarrow> (entry, w1)
      | (Inl err, w1) \<Rightarrow>
          ([(''error'', JStr (''Failed to analyze news sentiment: '' @ str_exc e err)),
            (''articles'', JArr [])], w1))"

fun news_sentiment_loop ::
  "env \<Rightarrow> int \<Rightarrow> string list \<Rightarrow> doc \<Rightarrow> world \<Rightarrow> doc \<times> world" where
  "news_sentiment_loop e limit [] results w = (results, w)"
| "news_sentiment_loop e limit (coin # coins) results w =
     (let (entry, w1) = coin_entry e w coin limit
      in news_sentiment_loop e limit coins (AList.update coin (JObj entry) results) w1)"

definition analyze_news_sentiment :: "env \<Rightarrow> world \<Rightarrow> string \<Rightarrow> int \<Rightarrow> doc \<times> world" where
  "analyze_news_sentiment e w coins limit =
     news_sentiment_loop e limit (coin_list_of coins) [] w"

section \<open>routers/news.py: GET /crypto-news\<close>


definition doc_get :: "doc \<Rightarrow> string \<Rightarrow> json \<Rightarrow> json" where
  "doc_get d k dflt = (case map_of d k of None \<Rightarrow> dflt | Some v \<Rightarrow> v)"















section \<open>Sample data\<close>

text \<open>
  A concrete environment and an empty store, on which the theorems below are
  instantiated: the clock starts at 1000 and advances by one per reading, every outbound
  request fails, and the classifier returns equal logits for every text.
\<close>

definition env0 :: env where
  "env0 = \<lparr>clock = (\<lambda>k. 1000 + int k),
           http_get = (\<lambda>n url params. RequestFailed ''Connection aborted.''),
           finbert = (\<lambda>text. Inr [0, 0, 0]),
           isoformat = str_int,
           py_repr = (\<lambda>v. ''?''),
           exc_text = (\<lambda>err. ''error'')\<rparr>"

definition world0 :: world where
  "world0 = \<lparr>colls = (\<lambda>c. []), next_id = 0, ticks = 0, outbound = []\<rparr>"

text \<open>Three trades of two users, and a snapshot that arrives with a timestamp of its own.\<close>

definition trade1 :: doc where
  "trade1 = [(''user_id'', JStr ''u1''), (''coin'', JStr ''BTC''), (''action'', JStr ''buy''),
             (''amount'', JFloat 1), (''price'', JFloat 100), (''timestamp'', JTime 10),
             (''_id'', JId 0)]"

definition trade2 :: doc where
  "trade2 = [(''user_id'', JStr ''u2''), (''coin'', JStr ''ETH''), (''action'', JStr ''sell''),
             (''amount'', JFloat 2), (''price'', JFloat 50), (''timestamp'', JTime 20),
             (''_id'', JId 1)]"

definition trade3 :: doc where
  "trade3 = [(''user_id'', JStr ''u1''), (''coin'', JStr ''ETH''), (''action'', JStr ''buy''),
             (''amount'', JFloat 3), (''price'', JFloat 51), (''timestamp'', JTime 30),
             (''_id'', JId 2)]"

definition world_trades :: world where
  "world_trades =
     \<lparr>colls = (\<lambda>c. if c = ''trades'' then [trade1, trade2, trade3] else []),
      next_id = 3, ticks = 0, outbound = []\<rparr>"

definition snapshot5 :: doc where
  "snapshot5 = [(''data'', JObj []), (''timestamp'', JTime 5)]"

text \<open>A store with two market snapshots, the second written after the first.\<close>

definition snap_old :: doc where
  "snap_old = [(''data'', JObj [(''BTC'', JObj [(''price'', JFloat 100)])]),
               (''timestamp'', JTime 10), (''_id'', JId 0)]"

definition snap_new :: doc where
  "snap_new = [(''data'', JObj [(''BTC'', JObj [(''price'', JFloat 101)])]),
               (''timestamp'', JTime 20), (''_id'', JId 1)]"

definition world_market :: world where
  "world_market =
     \<lparr>colls = (\<lambda>c. if c = ''market_data'' then [snap_old, snap_new] else []),
      next_id = 2, ticks = 0, outbound = []\<rparr>"

text \<open>
  The fixed thresholds as the specification words them: the label is positive iff the
  score is above 0.2, negative iff it is below -0.2, and neutral otherwise. The
  handlers do not call this; each has its own comparison chain.
\<close>

definition within_thresholds :: "real \<Rightarrow> string \<Rightarrow> bool" where
  "within_thresholds s label \<longleftrightarrow>
     (label = ''positive'' \<longleftrightarrow> s > 0.2) \<and>
     (label = ''negative'' \<longleftrightarrow> s < - 0.2) \<and>
     (label = ''neutral'' \<longleftrightarrow> \<not> s > 0.2 \<and> \<not> s < - 0.2)"

text \<open>An environment whose classifier favours the positive class.\<close>

definition env_bull :: env where
  "env_bull = env0\<lparr>finbert := (\<lambda>text. Inr [0, 0, ln 3])\<rparr>"

text \<open>
  An environment in which the first outbound request fails and every later one returns
  one article, and a store with one sentiment record that has no label.
\<close>

definition env_news :: env where
  "env_news = env_bull\<lparr>http_get :=
     (\<lambda>n url params.
        if n = 0 then RequestFailed ''Connection refused''
        else Parsed (JObj [(''news'', JArr [JObj
               [(''title'', JStr ''ETH climbs''), (''url'', JStr ''https://example.com/eth''),
                (''description'', JStr ''Ether gains''),
                (''published_at'', JStr ''2024-01-01T00:00:00'')]])]))\<rparr>"

definition world_sentiment :: world where
  "world_sentiment =
     \<lparr>colls = (\<lambda>c. if c = ''sentiment''
                    then [[(''coin'', JStr ''BTC''), (''text'', JStr ''BTC falls''),
                           (''sentiment_score'', JFloat (- 1 / 2)), (''timestamp'', JTime 5),
                           (''_id'', JId 0)]]
                    else []),
      next_id = 1, ticks = 0, outbound = []\<rparr>"

section \<open>Facts about sorting, limits and inserts\<close>

lemma set_insort_desc: "set (insort_desc f x xs) = insert x (set xs)"
  by (induction xs) auto

lemma length_insort_desc: "length (insort_desc f x xs) = Suc (length xs)"
  by (induction xs) auto

lemma set_sort_desc: "set (sort_desc f xs) = set xs"
  by (induction xs) (simp_all add: sort_desc_def set_insort_desc)

lemma length_sort_desc: "length (sort_desc f xs) = length xs"
  by (induction xs) (simp_all add: sort_desc_def length_insort_desc)

lemma sorted_insort_desc:
  "sorted_wrt (\<lambda>a b. f b \<le> f a) xs \<Longrightarrow> sorted_wrt (\<lambda>a b. f b \<le> f a) (insort_desc f x xs)"
  by (induction xs) (auto simp: set_insort_desc)

lemma sorted_sort_desc: "sorted_wrt (\<lambda>a b. f b \<le> f a) (sort_desc f xs)"
  by (induction xs) (simp_all add: sort_desc_def sorted_insort_desc)

lemma insort_desc_least:
  "\<forall>y\<in>set ys. f x < f y \<Longrightarrow> insort_desc f x ys = ys @ [x]"
  by (induction ys) auto

lemma sort_desc_increasing:
  "sorted_wrt (\<lambda>a b. f a < f b) xs \<Longrightarrow> sort_desc f xs = rev xs"
proof (induction xs)
  case Nil
  then show ?case by (simp add: sort_desc_def)
next
  case (Cons x xs)
  then have "sort_desc f xs = rev xs" by simp
  moreover have "\<forall>y\<in>set (rev xs). f x < f y" using Cons.prems by simp
  ultimately show ?case
    using insort_desc_least [of "rev xs" f x] by (simp add: sort_desc_def)
qed

lemma set_cursor_limit: "set (cursor_limit n xs) \<subseteq> set xs"
  by (auto simp: cursor_limit_def dest: in_set_takeD)

lemma length_cursor_limit: "0 < n \<Longrightarrow> int (length (cursor_limit n xs)) \<le> n"
  by (simp add: cursor_limit_def)

lemma sorted_cursor_limit: "sorted_wrt P xs \<Longrightarrow> sorted_wrt P (cursor_limit n xs)"
  by (simp add: cursor_limit_def sorted_wrt_take)

lemma assign_id_colls: "colls (snd (assign_id w d)) = colls w"
  by (simp add: assign_id_def)

lemma assign_ids_colls: "colls (snd (assign_ids w ds)) = colls w"
  by (induction ds arbitrary: w) (simp_all add: split_beta Let_def assign_id_colls)

lemma insert_one_colls:
  "colls (snd (insert_one w c d)) = (colls w)(c := colls w c @ [fst (insert_one w c d)])"
  by (simp add: insert_one_def split_beta Let_def assign_id_colls)

lemma insert_many_colls:
  "colls (snd (insert_many w c ds)) = (colls w)(c := colls w c @ fst (insert_many w c ds))"
  by (simp add: insert_many_def split_beta Let_def assign_ids_colls)

lemma utcnow_colls: "colls (snd (utcnow e w)) = colls w"
  by (simp add: utcnow_def)

lemma stamp_items_colls: "colls (snd (stamp_items e w items)) = colls w"
  by (induction items arbitrary: w) (simp_all add: split_beta Let_def utcnow_colls)

lemma store_market_data_prefix: "prefix (colls w c) (colls (snd (store_market_data e w data)) c)"
  by (simp add: store_market_data_def split_beta Let_def insert_one_colls utcnow_colls)

lemma store_sentiment_prefix: "prefix (colls w c) (colls (snd (store_sentiment e w coin text score)) c)"
  by (simp add: store_sentiment_def split_beta Let_def insert_one_colls utcnow_colls)

lemma record_trade_prefix: "prefix (colls w c) (colls (snd (record_trade e w u co a am p)) c)"
  by (simp add: record_trade_def split_beta Let_def insert_one_colls utcnow_colls)

lemma store_news_prefix: "prefix (colls w c) (colls (snd (store_news e w items)) c)"
  by (simp add: store_news_def split_beta Let_def insert_many_colls stamp_items_colls)

lemma map_of_update_other: "k \<noteq> k' \<Longrightarrow> map_of (AList.update k' v d) k = map_of d k"
  by (simp add: update_conv')

lemma map_of_update_same: "map_of (AList.update k v d) k = Some v"
  by (simp add: update_conv')

lemma assign_id_fields:
  "map_of (fst (assign_id w d)) k =
     (if k = ''_id'' \<and> map_of d ''_id'' = None then Some (JId (next_id w)) else map_of d k)"
  by (simp add: assign_id_def update_conv')

lemma assign_id_ticks: "ticks (snd (assign_id w d)) = ticks w"
  by (simp add: assign_id_def)

lemma store_market_data_stamp:
  "map_of (fst (store_market_data e w data)) ''timestamp'' = Some (JTime (clock e (ticks w)))"
  by (simp add: store_market_data_def utcnow_def insert_one_def split_beta Let_def
      assign_id_fields update_conv')

lemma store_market_data_frame:
  "k \<noteq> ''timestamp'' \<Longrightarrow> k \<noteq> ''_id'' \<or> map_of data ''_id'' \<noteq> None \<Longrightarrow>
   map_of (fst (store_market_data e w data)) k = map_of data k"
  by (auto simp add: store_market_data_def utcnow_def insert_one_def split_beta Let_def
      assign_id_fields update_conv')

lemma store_market_data_stored:
  "colls (snd (store_market_data e w data)) MARKET_DATA_COLLECTION =
   colls w MARKET_DATA_COLLECTION @ [fst (store_market_data e w data)]"
  by (simp add: store_market_data_def utcnow_def insert_one_def split_beta Let_def
      assign_id_colls)

lemma length_stamp_items: "length (fst (stamp_items e w items)) = length items"
  by (induction items arbitrary: w) (simp_all add: split_beta Let_def)

lemma stamp_items_nth:
  "i < length items \<Longrightarrow>
   fst (stamp_items e w items) ! i =
     AList.update ''stored_at'' (JTime (clock e (ticks w + i))) (items ! i)"
proof (induction items arbitrary: w i)
  case Nil
  then show ?case by simp
next
  case (Cons a items)
  show ?case
  proof (cases i)
    case 0
    then show ?thesis by (simp add: split_beta Let_def utcnow_def)
  next
    case (Suc j)
    with Cons.prems have "j < length items" by simp
    from Cons.IH [OF this, of "snd (utcnow e w)"] Suc show ?thesis
      by (simp add: split_beta Let_def utcnow_def)
  qed
qed

lemma stamp_items_Nil: "fst (stamp_items e w items) = [] \<longleftrightarrow> items = []"
  using length_stamp_items [of e w items] by (metis length_0_conv)

lemma length_assign_ids: "length (fst (assign_ids w ds)) = length ds"
  by (induction ds arbitrary: w) (simp_all add: split_beta Let_def)

lemma assign_ids_nth_fields:
  "i < length ds \<Longrightarrow> k \<noteq> ''_id'' \<or> map_of (ds ! i) ''_id'' \<noteq> None \<Longrightarrow>
   map_of (fst (assign_ids w ds) ! i) k = map_of (ds ! i) k"
proof (induction ds arbitrary: w i)
  case Nil
  then show ?case by simp
next
  case (Cons a ds)
  show ?case
  proof (cases i)
    case 0
    with Cons.prems show ?thesis by (auto simp add: split_beta Let_def assign_id_fields)
  next
    case (Suc j)
    with Cons.prems have "j < length ds" "k \<noteq> ''_id'' \<or> map_of (ds ! j) ''_id'' \<noteq> None"
      by simp_all
    from Cons.IH [OF this, of "snd (assign_id w a)"] Suc show ?thesis
      by (simp add: split_beta Let_def)
  qed
qed

lemma length_store_news: "length (fst (store_news e w items)) = length items"
  by (simp add: store_news_def insert_many_def split_beta Let_def length_stamp_items
      length_assign_ids stamp_items_Nil)

lemma store_news_stamp:
  assumes "i < length items"
  shows "map_of (fst (store_news e w items) ! i) ''stored_at'' =
           Some (JTime (clock e (ticks w + i)))"
proof -
  from assms have ne: "fst (stamp_items e w items) \<noteq> []"
    by (auto simp add: stamp_items_Nil)
  have i': "i < length (fst (stamp_items e w items))"
    using assms by (simp add: length_stamp_items)
  have "map_of (fst (store_news e w items) ! i) ''stored_at'' =
        map_of (fst (stamp_items e w items) ! i) ''stored_at''"
    using ne assign_ids_nth_fields [OF i', of "''stored_at''"]
    by (simp add: store_news_def insert_many_def split_beta Let_def)
  then show ?thesis
    using assms by (simp add: stamp_items_nth update_conv')
qed

lemma store_news_frame:
  assumes "i < length items" "k \<noteq> ''stored_at''"
    "k \<noteq> ''_id'' \<or> map_of (items ! i) ''_id'' \<noteq> None"
  shows "map_of (fst (store_news e w items) ! i) k = map_of (items ! i) k"
proof -
  from assms have ne: "fst (stamp_items e w items) \<noteq> []"
    by (auto simp add: stamp_items_Nil)
  have i': "i < length (fst (stamp_items e w items))"
    using assms by (simp add: length_stamp_items)
  have st: "k \<noteq> ''stored_at'' \<Longrightarrow>
      map_of (fst (stamp_items e w items) ! i) k = map_of (items ! i) k" for k
    using assms(1) by (simp add: stamp_items_nth update_conv')
  have "k \<noteq> ''_id'' \<or> map_of (fst (stamp_items e w items) ! i) ''_id'' \<noteq> None"
    using assms(3) st [of "''_id''"] by auto
  from assign_ids_nth_fields [OF i' this]
  have "map_of (fst (store_news e w items) ! i) k =
        map_of (fst (stamp_items e w items) ! i) k"
    using ne by (simp add: store_news_def insert_many_def split_beta Let_def)
  then show ?thesis using st [OF assms(2)] by simp
qed

lemma store_news_stored:
  "colls (snd (store_news e w items)) NEWS_COLLECTION =
   colls w NEWS_COLLECTION @ fst (store_news e w items)"
  by (simp add: store_news_def insert_many_def split_beta Let_def assign_ids_colls
      stamp_items_colls length_stamp_items)

lemma store_sentiment_doc:
  "fst (store_sentiment e w coin text score) =
     [(''coin'', JStr coin), (''text'', JStr text), (''sentiment_score'', JFloat score),
      (''timestamp'', JTime (clock e (ticks w))), (''_id'', JId (next_id w))]"
  by (simp add: store_sentiment_def utcnow_def insert_one_def assign_id_def)

lemma store_sentiment_stored:
  "colls (snd (store_sentiment e w coin text score)) SENTIMENT_COLLECTION =
   colls w SENTIMENT_COLLECTION @ [fst (store_sentiment e w coin text score)]"
  by (simp add: store_sentiment_def utcnow_def insert_one_def split_beta Let_def
      assign_id_colls)

lemma record_trade_doc:
  "fst (record_trade e w u c a amount price) =
     [(''user_id'', JStr u), (''coin'', JStr c), (''action'', JStr a),
      (''amount'', JFloat amount), (''price'', JFloat price),
      (''timestamp'', JTime (clock e (ticks w))), (''_id'', JId (next_id w))]"
  by (simp add: record_trade_def utcnow_def insert_one_def assign_id_def)

lemma record_trade_stored:
  "colls (snd (record_trade e w u c a amount price)) TRADES_COLLECTION =
   colls w TRADES_COLLECTION @ [fst (record_trade e w u c a amount price)]"
  by (simp add: record_trade_def utcnow_def insert_one_def split_beta Let_def
      assign_id_colls)

section \<open>Trade history (C8)\<close>

lemma trades_all: "get_trade_history world_trades (Some []) None = [trade3, trade2, trade1]"
  by (simp add: get_trade_history_def world_trades_def TRADES_COLLECTION_def find_sorted_def
      matches_def sort_desc_def cursor_limit_def trade1_def trade2_def trade3_def)

lemma trades_u1_0: "get_trade_history world_trades (Some ''u1'') (Some 0) = [trade3, trade1]"
  by (simp add: get_trade_history_def world_trades_def TRADES_COLLECTION_def find_sorted_def
      matches_def sort_desc_def cursor_limit_def trade1_def trade2_def trade3_def)

lemma trades_u1: "get_trade_history world_trades (Some ''u1'') None = [trade3, trade1]"
  by (simp add: get_trade_history_def world_trades_def TRADES_COLLECTION_def find_sorted_def
      matches_def sort_desc_def cursor_limit_def trade1_def trade2_def trade3_def)

lemma matches_user: "matches [(''user_id'', JStr u)] d \<longleftrightarrow> map_of d ''user_id'' = Some (JStr u)"
  by (simp add: matches_def)

text \<open>
  C8, as stated, fails in two places. A user id that is supplied but empty fails the
  truth test \<open>if user_id:\<close>, so no filter is applied and the trades of every user come
  back. A requested limit of 0 is the store's "no limit", so more than 0 records come
  back.
\<close>

theorem trade_history_claim_counterexample:
  "\<not> (\<forall>d \<in> set (get_trade_history world_trades (Some []) None).
         map_of d ''user_id'' = Some (JStr []))
   \<and> \<not> int (length (get_trade_history world_trades (Some ''u1'') (Some 0))) \<le> 0"
  by (simp add: trades_all trades_u1_0 trade3_def)

text \<open>
  C8, amended: for a non-empty user id and a positive limit (20 when none is given),
  \<open>get_trade_history\<close> returns only stored trades whose \<open>user_id\<close> equals the supplied
  id, in descending order of \<open>timestamp\<close>, and at most limit of them.
\<close>

theorem trade_history_by_user:
  assumes "u \<noteq> []" and "0 < (case limit of None \<Rightarrow> 20 | Some n \<Rightarrow> n)"
  shows "(\<forall>d \<in> set (get_trade_history w (Some u) limit).
            d \<in> set (colls w TRADES_COLLECTION) \<and> map_of d ''user_id'' = Some (JStr u))
       \<and> sorted_wrt (\<lambda>a b. bson_key (map_of b ''timestamp'') \<le> bson_key (map_of a ''timestamp''))
           (get_trade_history w (Some u) limit)
       \<and> int (length (get_trade_history w (Some u) limit))
           \<le> (case limit of None \<Rightarrow> 20 | Some n \<Rightarrow> n)"
proof -
  let ?lim = "case limit of None \<Rightarrow> 20 | Some n \<Rightarrow> n"
  let ?found = "find_sorted [(''user_id'', JStr u)] ''timestamp'' (colls w TRADES_COLLECTION)"
  have eq: "get_trade_history w (Some u) limit = cursor_limit ?lim ?found"
    using assms(1) by (simp add: get_trade_history_def)
  have "set (cursor_limit ?lim ?found) \<subseteq> set ?found"
    by (rule set_cursor_limit)
  moreover have "set ?found =
      {d \<in> set (colls w TRADES_COLLECTION). map_of d ''user_id'' = Some (JStr u)}"
    by (simp add: find_sorted_def set_sort_desc matches_user)
  ultimately have a: "\<forall>d \<in> set (get_trade_history w (Some u) limit).
      d \<in> set (colls w TRADES_COLLECTION) \<and> map_of d ''user_id'' = Some (JStr u)"
    using eq by auto
  have "sorted_wrt (\<lambda>a b. bson_key (map_of b ''timestamp'') \<le> bson_key (map_of a ''timestamp''))
      ?found"
    unfolding find_sorted_def by (rule sorted_sort_desc)
  then have b: "sorted_wrt
      (\<lambda>a b. bson_key (map_of b ''timestamp'') \<le> bson_key (map_of a ''timestamp''))
      (get_trade_history w (Some u) limit)"
    unfolding eq by (rule sorted_cursor_limit)
  have c: "int (length (get_trade_history w (Some u) limit)) \<le> ?lim"
    unfolding eq using assms(2) by (rule length_cursor_limit)
  from a b c show ?thesis by blast
qed

theorem trade_history_by_user_witness:
  "get_trade_history world_trades (Some ''u1'') None = [trade3, trade1]
   \<and> map_of trade3 ''user_id'' = Some (JStr ''u1'')
   \<and> map_of trade1 ''user_id'' = Some (JStr ''u1'')
   \<and> bson_key (map_of trade1 ''timestamp'') \<le> bson_key (map_of trade3 ''timestamp'')
   \<and> int (length (get_trade_history world_trades (Some ''u1'') None)) \<le> 20"
proof -
  have h1: "''u1'' \<noteq> []" by simp
  have h2: "0 < (case None :: int option of None \<Rightarrow> 20 | Some n \<Rightarrow> n)" by simp
  from trade_history_by_user [OF h1 h2, of world_trades] show ?thesis
    unfolding trades_u1 by simp
qed

section \<open>The collections are append-only logs (C9)\<close>

text \<open>
  C9: whatever call a handler makes on the gateway, every collection afterwards starts
  with the records it held before, unchanged and in place: a call appends or leaves the
  collection as it is; none updates or deletes a record.
\<close>

theorem gateway_append_only:
  "prefix (colls w c) (colls (gateway_step e w call) c)"
  by (cases call)
     (simp_all add: store_market_data_prefix store_sentiment_prefix record_trade_prefix
        store_news_prefix)

theorem gateway_append_only_witness:
  "prefix (colls world_trades TRADES_COLLECTION)
     (colls (gateway_step env0 world_trades (Record_trade ''u2'' ''BTC'' ''buy'' 1 2))
        TRADES_COLLECTION)
   \<and> colls (gateway_step env0 world_trades (Record_trade ''u2'' ''BTC'' ''buy'' 1 2))
        TRADES_COLLECTION =
       [trade1, trade2, trade3,
        [(''user_id'', JStr ''u2''), (''coin'', JStr ''BTC''), (''action'', JStr ''buy''),
         (''amount'', JFloat 1), (''price'', JFloat 2), (''timestamp'', JTime 1000),
         (''_id'', JId 3)]]"
proof -
  have "colls (gateway_step env0 world_trades (Record_trade ''u2'' ''BTC'' ''buy'' 1 2))
        TRADES_COLLECTION =
       [trade1, trade2, trade3,
        [(''user_id'', JStr ''u2''), (''coin'', JStr ''BTC''), (''action'', JStr ''buy''),
         (''amount'', JFloat 1), (''price'', JFloat 2), (''timestamp'', JTime 1000),
         (''_id'', JId 3)]]"
    unfolding gateway_step.simps record_trade_stored record_trade_doc
    by (simp add: world_trades_def env0_def TRADES_COLLECTION_def)
  with gateway_append_only [of world_trades TRADES_COLLECTION env0
      "Record_trade ''u2'' ''BTC'' ''buy'' 1 2"]
  show ?thesis by simp
qed

section \<open>What an insert stamps (C5)\<close>

text \<open>
  C5, as stated, fails: \<open>store_market_data\<close> assigns \<open>data["timestamp"]\<close> without
  looking at it, so a timestamp the caller supplied (5 here) is replaced by the clock's
  reading (1000).
\<close>

theorem insert_stamp_claim_counterexample:
  "map_of snapshot5 ''timestamp'' = Some (JTime 5)
   \<and> colls (snd (store_market_data env0 world0 snapshot5)) MARKET_DATA_COLLECTION =
       [[(''data'', JObj []), (''timestamp'', JTime 1000), (''_id'', JId 0)]]"
  by (simp add: store_market_data_def utcnow_def insert_one_def assign_id_def snapshot5_def
      env0_def world0_def MARKET_DATA_COLLECTION_def)

text \<open>
  C5, amended: every insert of the gateway stamps the record with the clock's reading,
  whether or not the caller supplied a value under that key: \<open>store_market_data\<close> sets
  \<open>timestamp\<close>, \<open>store_news\<close> sets \<open>stored_at\<close> on each item (one reading per
  item), \<open>store_sentiment\<close> and \<open>record_trade\<close> build the record themselves with a
  \<open>timestamp\<close>. Every other field the caller supplied is stored as supplied, and
  the stored record has no further field but the \<open>_id\<close> the store gives it.
\<close>

theorem inserts_stamp_unconditionally:
  "map_of (fst (store_market_data e w data)) ''timestamp'' = Some (JTime (clock e (ticks w)))
   \<and> (\<forall>k. k \<noteq> ''timestamp'' \<and> (k \<noteq> ''_id'' \<or> map_of data ''_id'' \<noteq> None) \<longrightarrow>
          map_of (fst (store_market_data e w data)) k = map_of data k)
   \<and> colls (snd (store_market_data e w data)) MARKET_DATA_COLLECTION =
       colls w MARKET_DATA_COLLECTION @ [fst (store_market_data e w data)]
   \<and> length (fst (store_news e w items)) = length items
   \<and> (\<forall>i < length items.
         map_of (fst (store_news e w items) ! i) ''stored_at'' =
           Some (JTime (clock e (ticks w + i)))
         \<and> (\<forall>k. k \<noteq> ''stored_at'' \<and> (k \<noteq> ''_id'' \<or> map_of (items ! i) ''_id'' \<noteq> None) \<longrightarrow>
                map_of (fst (store_news e w items) ! i) k = map_of (items ! i) k))
   \<and> colls (snd (store_news e w items)) NEWS_COLLECTION =
       colls w NEWS_COLLECTION @ fst (store_news e w items)
   \<and> fst (store_sentiment e w coin text score) =
       [(''coin'', JStr coin), (''text'', JStr text), (''sentiment_score'', JFloat score),
        (''timestamp'', JTime (clock e (ticks w))), (''_id'', JId (next_id w))]
   \<and> colls (snd (store_sentiment e w coin text score)) SENTIMENT_COLLECTION =
       colls w SENTIMENT_COLLECTION @ [fst (store_sentiment e w coin text score)]
   \<and> fst (record_trade e w u c a amount price) =
       [(''user_id'', JStr u), (''coin'', JStr c), (''action'', JStr a),
        (''amount'', JFloat amount), (''price'', JFloat price),
        (''timestamp'', JTime (clock e (ticks w))), (''_id'', JId (next_id w))]
   \<and> colls (snd (record_trade e w u c a amount price)) TRADES_COLLECTION =
       colls w TRADES_COLLECTION @ [fst (record_trade e w u c a amount price)]"
proof -
  have m: "\<forall>k. k \<noteq> ''timestamp'' \<and> (k \<noteq> ''_id'' \<or> map_of data ''_id'' \<noteq> None) \<longrightarrow>
          map_of (fst (store_market_data e w data)) k = map_of data k"
    using store_market_data_frame by blast
  have n: "\<forall>i < length items.
         map_of (fst (store_news e w items) ! i) ''stored_at'' =
           Some (JTime (clock e (ticks w + i)))
         \<and> (\<forall>k. k \<noteq> ''stored_at'' \<and> (k \<noteq> ''_id'' \<or> map_of (items ! i) ''_id'' \<noteq> None) \<longrightarrow>
                map_of (fst (store_news e w items) ! i) k = map_of (items ! i) k)"
    using store_news_stamp store_news_frame by blast
  show ?thesis
    by (intro conjI m n store_market_data_stamp store_market_data_stored length_store_news
        store_news_stored store_sentiment_doc store_sentiment_stored record_trade_doc
        record_trade_stored)
qed

theorem inserts_stamp_unconditionally_witness:
  "map_of (fst (store_market_data env0 world0 snapshot5)) ''timestamp'' = Some (JTime 1000)
   \<and> map_of (fst (store_market_data env0 world0 snapshot5)) ''data'' = Some (JObj [])
   \<and> map_of (fst (store_news env0 world0 [[(''title'', JStr ''a'')], [(''title'', JStr ''b'')]]) ! 1)
        ''stored_at'' = Some (JTime 1001)
   \<and> map_of (fst (store_news env0 world0 [[(''title'', JStr ''a'')], [(''title'', JStr ''b'')]]) ! 1)
        ''title'' = Some (JStr ''b'')"
proof -
  note t = inserts_stamp_unconditionally [of env0 world0 snapshot5
      "[[(''title'', JStr ''a'')], [(''title'', JStr ''b'')]]"]
  note t1 = t [THEN conjunct1]
  note t2 = t [THEN conjunct2, THEN conjunct1, rule_format, of "''data''"]
  note t5 = t [THEN conjunct2, THEN conjunct2, THEN conjunct2, THEN conjunct2, THEN conjunct1,
      rule_format, of 1]
  have a: "map_of (fst (store_market_data env0 world0 snapshot5)) ''timestamp'' = Some (JTime 1000)"
    using t1 by (simp add: env0_def world0_def)
  have b: "map_of (fst (store_market_data env0 world0 snapshot5)) ''data'' = Some (JObj [])"
    using t2 by (simp add: snapshot5_def)
  have c: "map_of (fst (store_news env0 world0
        [[(''title'', JStr ''a'')], [(''title'', JStr ''b'')]]) ! 1) ''stored_at''
      = Some (JTime 1001)"
    using t5 [THEN conjunct1] by (simp add: env0_def world0_def)
  have d: "map_of (fst (store_news env0 world0
        [[(''title'', JStr ''a'')], [(''title'', JStr ''b'')]]) ! 1) ''title''
      = Some (JStr ''b'')"
    using t5 [THEN conjunct2, rule_format, of "''title''"] by simp
  from a b c d show ?thesis by (intro conjI)
qed

section \<open>GET /market-data on a cache hit (C3, C10)\<close>

lemma delete_absent: "map_of d k = None \<Longrightarrow> AList.delete k d = d"
  by (induction d) (auto simp: AList.delete_eq split: if_splits)

lemma matches_Nil: "matches [] d"
  by (simp add: matches_def)

lemma find_sorted_all: "find_sorted [] field ds = sort_desc (\<lambda>d. bson_key (map_of d field)) ds"
  by (simp add: find_sorted_def matches_Nil)

lemma sort_desc_Nil_iff: "sort_desc f xs = [] \<longleftrightarrow> xs = []"
  using length_sort_desc [of f xs] by (metis length_0_conv)

lemma sort_desc_hd_max:
  assumes "sort_desc f xs = d # rest"
  shows "d \<in> set xs \<and> (\<forall>x \<in> set xs. f x \<le> f d)"
proof -
  have s: "set xs = insert d (set rest)"
    using set_sort_desc [of f xs] assms by simp
  have "sorted_wrt (\<lambda>a b. f b \<le> f a) (d # rest)"
    using sorted_sort_desc [of f xs] assms by simp
  then have "\<forall>x \<in> set rest. f x \<le> f d" by simp
  with s show ?thesis by auto
qed

lemma latest_market_data:
  assumes "colls w MARKET_DATA_COLLECTION \<noteq> []"
  shows "\<exists>d. get_latest_market_data w = Some d
           \<and> d \<in> set (colls w MARKET_DATA_COLLECTION)
           \<and> (\<forall>d' \<in> set (colls w MARKET_DATA_COLLECTION).
                 bson_key (map_of d' ''timestamp'') \<le> bson_key (map_of d ''timestamp''))
           \<and> (sorted_wrt (\<lambda>a b. bson_key (map_of a ''timestamp'') < bson_key (map_of b ''timestamp''))
                 (colls w MARKET_DATA_COLLECTION) \<longrightarrow> d = last (colls w MARKET_DATA_COLLECTION))"
proof -
  let ?f = "\<lambda>d. bson_key (map_of d ''timestamp'')"
  let ?ds = "colls w MARKET_DATA_COLLECTION"
  from assms obtain d rest where sd: "sort_desc ?f ?ds = d # rest"
    using sort_desc_Nil_iff [of ?f ?ds] by (cases "sort_desc ?f ?ds") auto
  then have g: "get_latest_market_data w = Some d"
    by (simp add: get_latest_market_data_def find_one_sorted_def find_sorted_all)
  have l: "d = last ?ds" if "sorted_wrt (\<lambda>a b. ?f a < ?f b) ?ds"
  proof -
    from that have "sort_desc ?f ?ds = rev ?ds" by (rule sort_desc_increasing)
    with sd have "rev ?ds = d # rest" by simp
    then have "?ds = rev rest @ [d]" by (metis rev.simps(2) rev_rev_ident)
    then show ?thesis by simp
  qed
  from sort_desc_hd_max [OF sd] g l show ?thesis by blast
qed

lemma market_data_hit:
  assumes "get_latest_market_data w = Some d" and "d \<noteq> []"
  shows "get_market_data e w symbols limit True = (Inr (AList.delete ''_id'' d), w)"
  using assms by (simp add: get_market_data_def delete_absent)

lemma store_market_data_not_empty: "fst (store_market_data e w data) \<noteq> []"
  using store_market_data_stamp [of e w data] by auto



lemma world_market_colls: "colls world_market MARKET_DATA_COLLECTION = [snap_old, snap_new]"
  by (simp add: world_market_def MARKET_DATA_COLLECTION_def)


text \<open>
  C10: two requests with \<open>use_cache=true\<close> against the same state with a non-empty
  market collection get the same response and leave the same state, whatever their
  \<open>symbols\<close> and \<open>limit\<close>. In the instance below a request for DOGE is answered
  with a snapshot that covers BTC only.
\<close>

theorem cache_hit_ignores_parameters:
  assumes "colls w MARKET_DATA_COLLECTION \<noteq> []"
    and "[] \<notin> set (colls w MARKET_DATA_COLLECTION)"
  shows "get_market_data e w symbols1 limit1 True = get_market_data e w symbols2 limit2 True"
proof -
  from latest_market_data [OF assms(1)] obtain d where
    d: "get_latest_market_data w = Some d" "d \<in> set (colls w MARKET_DATA_COLLECTION)"
    by blast
  from d(2) assms(2) have "d \<noteq> []" by auto
  from market_data_hit [OF d(1) this] show ?thesis by simp
qed

lemma world_market_latest: "get_latest_market_data world_market = Some snap_new"
  by (simp add: get_latest_market_data_def find_one_sorted_def find_sorted_all sort_desc_def
      world_market_colls snap_old_def snap_new_def)

theorem cache_hit_ignores_parameters_witness:
  "get_market_data env0 world_market ''DOGE'' 1 True =
     get_market_data env0 world_market ''BTC,ETH'' 50 True
   \<and> fst (get_market_data env0 world_market ''DOGE'' 1 True) =
       Inr [(''data'', JObj [(''BTC'', JObj [(''price'', JFloat 101)])]),
            (''timestamp'', JTime 20)]"
proof -
  have h1: "colls world_market MARKET_DATA_COLLECTION \<noteq> []"
    by (simp add: world_market_colls)
  have h2: "[] \<notin> set (colls world_market MARKET_DATA_COLLECTION)"
    by (simp add: world_market_colls snap_old_def snap_new_def)
  have "fst (get_market_data env0 world_market ''DOGE'' 1 True) =
       Inr [(''data'', JObj [(''BTC'', JObj [(''price'', JFloat 101)])]),
            (''timestamp'', JTime 20)]"
    by (simp add: get_market_data_def world_market_latest) (simp add: snap_new_def)
  with cache_hit_ignores_parameters [OF h1 h2, of env0 "''DOGE''" 1 "''BTC,ETH''" 50]
  show ?thesis by simp
qed

lemma is_substring_self: "is_substring m m"
  by (cases m) simp_all

lemma is_substring_append: "is_substring m (p @ m)"
  by (induction p) (simp_all add: is_substring_self)

section \<open>The Provider Client on a failed request (C6)\<close>

text \<open>
  C6, as stated, fails: the detail of the error is the fixed text followed by the
  message of the underlying exception, and the endpoint is not put into it. Here the
  connection is aborted and the detail does not contain the endpoint.
\<close>

theorem fetch_error_claim_counterexample:
  "fst (fetch_from_coinmarketcap env0 world0 ''cryptocurrency/news'' None) =
     Inl (HTTPException 500 ''Error fetching data from CoinMarketCap: Connection aborted.'')
   \<and> \<not> is_substring ''cryptocurrency/news''
         ''Error fetching data from CoinMarketCap: Connection aborted.''"
  by (simp add: fetch_from_coinmarketcap_def env0_def world0_def)

text \<open>
  C6, amended: a fetch sends exactly one request, whatever its outcome (there is no
  retry), and does not touch the store. When the request raises a \<open>RequestException\<close>
  (a connection error, or the error status that \<open>raise_for_status\<close> reports), the fetch
  fails with the one uniform error: an \<open>HTTPException\<close> with status 500 whose detail is
  \<open>Error fetching data from CoinMarketCap: \<close> followed by the underlying message. The
  endpoint is in the detail only where the underlying message mentions it.
\<close>

theorem fetch_failure_is_uniform:
  "outbound (snd (fetch_from_coinmarketcap e w endpoint params)) =
     outbound w @ [(''https://pro-api.coinmarketcap.com/v1/'' @ endpoint, params)]
   \<and> colls (snd (fetch_from_coinmarketcap e w endpoint params)) = colls w
   \<and> (\<forall>m. http_get e (length (outbound w)) (''https://pro-api.coinmarketcap.com/v1/'' @ endpoint)
              params = RequestFailed m \<longrightarrow>
          fst (fetch_from_coinmarketcap e w endpoint params) =
            Inl (HTTPException 500 (''Error fetching data from CoinMarketCap: '' @ m))
          \<and> is_substring m (''Error fetching data from CoinMarketCap: '' @ m))"
proof (intro conjI allI impI)
  show "outbound (snd (fetch_from_coinmarketcap e w endpoint params)) =
     outbound w @ [(''https://pro-api.coinmarketcap.com/v1/'' @ endpoint, params)]"
    by (simp add: fetch_from_coinmarketcap_def Let_def split: http_outcome.splits)
  show "colls (snd (fetch_from_coinmarketcap e w endpoint params)) = colls w"
    by (simp add: fetch_from_coinmarketcap_def Let_def split: http_outcome.splits)
next
  fix m
  assume "http_get e (length (outbound w)) (''https://pro-api.coinmarketcap.com/v1/'' @ endpoint)
              params = RequestFailed m"
  then show "fst (fetch_from_coinmarketcap e w endpoint params) =
            Inl (HTTPException 500 (''Error fetching data from CoinMarketCap: '' @ m))"
    by (simp add: fetch_from_coinmarketcap_def Let_def)
next
  fix m
  show "is_substring m (''Error fetching data from CoinMarketCap: '' @ m)"
    by (rule is_substring_append)
qed

theorem fetch_failure_is_uniform_witness:
  "http_get env0 (length (outbound world0)) ''https://pro-api.coinmarketcap.com/v1/cryptocurrency/news''
      None = RequestFailed ''Connection aborted.''
   \<and> fst (fetch_from_coinmarketcap env0 world0 ''cryptocurrency/news'' None) =
       Inl (HTTPException 500 ''Error fetching data from CoinMarketCap: Connection aborted.'')
   \<and> outbound (snd (fetch_from_coinmarketcap env0 world0 ''cryptocurrency/news'' None)) =
       [(''https://pro-api.coinmarketcap.com/v1/cryptocurrency/news'', None)]"
proof -
  note t = fetch_failure_is_uniform [of env0 world0 "''cryptocurrency/news''" None]
  have h: "http_get env0 (length (outbound world0))
      (''https://pro-api.coinmarketcap.com/v1/'' @ ''cryptocurrency/news'') None
      = RequestFailed ''Connection aborted.''"
    by (simp add: env0_def)
  from t [THEN conjunct2, THEN conjunct2, rule_format, OF h, THEN conjunct1]
    t [THEN conjunct1] h
  show ?thesis by (simp add: world0_def)
qed

section \<open>The score of the Sentiment Scorer is bounded (C2)\<close>

lemma sum_exp_nonneg: "0 \<le> sum_list (map exp (xs :: real list))"
  by (induction xs) (simp_all add: add_nonneg_nonneg)

lemma sum_exp_pos: "xs \<noteq> [] \<Longrightarrow> 0 < sum_list (map exp (xs :: real list))"
proof (cases xs)
  case Nil
  then show "xs \<noteq> [] \<Longrightarrow> ?thesis" by simp
next
  case (Cons a ys)
  have "0 < exp a" by simp
  then have "0 < exp a + sum_list (map exp ys)"
    using sum_exp_nonneg [of ys] by (rule add_pos_nonneg)
  with Cons show ?thesis by simp
qed

lemma exp_le_sum: "x \<in> set xs \<Longrightarrow> exp x \<le> sum_list (map exp (xs :: real list))"
proof (induction xs)
  case Nil
  then show ?case by simp
next
  case (Cons a xs)
  have n: "0 \<le> sum_list (map exp xs)" by (rule sum_exp_nonneg)
  have p: "0 < exp a" by simp
  show ?case
  proof (cases "x = a")
    case True
    with n show ?thesis by simp
  next
    case False
    with Cons have "exp x \<le> sum_list (map exp xs)" by simp
    moreover have "0 \<le> exp a" by simp
    ultimately have "exp x \<le> exp a + sum_list (map exp xs)" by linarith
    then show ?thesis by simp
  qed
qed

lemma softmax_range:
  assumes "p \<in> set (softmax xs)"
  shows "0 \<le> p \<and> p \<le> 1"
proof -
  from assms obtain x where x: "x \<in> set xs" "p = exp x / sum_list (map exp xs)"
    by (auto simp: softmax_def)
  then have "xs \<noteq> []" by auto
  then have pos: "0 < sum_list (map exp xs)" by (rule sum_exp_pos)
  from exp_le_sum [OF x(1)] pos have "exp x / sum_list (map exp xs) \<le> 1" by simp
  moreover from pos have "0 \<le> exp x / sum_list (map exp xs)" by simp
  ultimately show ?thesis using x(2) by simp
qed

lemma sum_list_divide: "sum_list (map (\<lambda>x. f x / c) xs) = sum_list (map f xs) / (c :: real)"
  by (induction xs) (simp_all add: add_divide_distrib)

lemma softmax_sum: "xs \<noteq> [] \<Longrightarrow> sum_list (softmax xs) = 1"
  using sum_exp_pos [of xs] by (simp add: softmax_def sum_list_divide)

lemma length_softmax: "length (softmax xs) = length xs"
  by (simp add: softmax_def)

lemma analyze_text_sentiment_Inr:
  assumes "analyze_text_sentiment e txt = Inr r"
  shows "\<exists>logits. finbert e txt = Inr logits \<and> 3 \<le> length logits
           \<and> sentiment_score r = softmax logits ! 2 - softmax logits ! 0
           \<and> raw_scores r = (softmax logits ! 0, softmax logits ! 1, softmax logits ! 2)
           \<and> sentiment_label r =
               (if sentiment_score r > 0.2 then ''positive''
                else if sentiment_score r < - 0.2 then ''negative'' else ''neutral'')"
  using assms
  by (auto simp add: analyze_text_sentiment_def Let_def length_softmax
      split: sum.splits if_splits)

text \<open>
  C2: whenever the scorer returns for a text, its score is the positive-class
  probability minus the negative-class probability of the softmax of the logits, every
  component of that distribution lies between 0 and 1, the components sum to 1, and
  the score lies between -1 and 1. (Probabilities are real numbers here; the rounding
  of floating-point arithmetic is not modelled.)
\<close>

theorem score_is_bounded:
  assumes "analyze_text_sentiment e txt = Inr r"
  shows "\<exists>logits. finbert e txt = Inr logits
           \<and> raw_scores r = (softmax logits ! 0, softmax logits ! 1, softmax logits ! 2)
           \<and> (\<forall>p \<in> set (softmax logits). 0 \<le> p \<and> p \<le> 1)
           \<and> sum_list (softmax logits) = 1
           \<and> sentiment_score r = softmax logits ! 2 - softmax logits ! 0
           \<and> - 1 \<le> sentiment_score r \<and> sentiment_score r \<le> 1"
proof -
  from analyze_text_sentiment_Inr [OF assms] obtain logits where
    l: "finbert e txt = Inr logits" "3 \<le> length logits"
      "sentiment_score r = softmax logits ! 2 - softmax logits ! 0"
      "raw_scores r = (softmax logits ! 0, softmax logits ! 1, softmax logits ! 2)"
    by blast
  have rng: "\<forall>p \<in> set (softmax logits). 0 \<le> p \<and> p \<le> 1"
    using softmax_range by blast
  from l(2) have len: "2 < length (softmax logits)" "0 < length (softmax logits)"
    by (auto simp add: length_softmax)
  have "softmax logits ! 2 \<in> set (softmax logits)"
    "softmax logits ! 0 \<in> set (softmax logits)"
    using len [THEN nth_mem] by blast+
  with rng have "0 \<le> softmax logits ! 2" "softmax logits ! 2 \<le> 1"
    "0 \<le> softmax logits ! 0" "softmax logits ! 0 \<le> 1"
    by blast+
  with l(3) have b: "- 1 \<le> sentiment_score r" "sentiment_score r \<le> 1" by linarith+
  from l(2) have "logits \<noteq> []" by auto
  then have "sum_list (softmax logits) = 1" by (rule softmax_sum)
  with l rng b show ?thesis by blast
qed

lemma analyze_bull:
  "analyze_text_sentiment env_bull ''Bitcoin surges to new highs'' =
     Inr \<lparr>sentiment_score = 2 / 5, sentiment_label = ''positive'',
          raw_scores = (1 / 5, 1 / 5, 3 / 5)\<rparr>"
  by (simp add: analyze_text_sentiment_def env_bull_def env0_def softmax_def Let_def)

theorem score_is_bounded_witness:
  "analyze_text_sentiment env_bull ''Bitcoin surges to new highs'' =
     Inr \<lparr>sentiment_score = 2 / 5, sentiment_label = ''positive'',
          raw_scores = (1 / 5, 1 / 5, 3 / 5)\<rparr>
   \<and> - 1 \<le> (2 / 5 :: real) \<and> (2 / 5 :: real) \<le> 1"
  using score_is_bounded [OF analyze_bull] analyze_bull by simp

section \<open>The loop over the requested coins (C7)\<close>

lemma loop_append:
  "news_sentiment_loop e limit (xs @ ys) res w =
     (case news_sentiment_loop e limit xs res w of
        (res1, w1) \<Rightarrow> news_sentiment_loop e limit ys res1 w1)"
  by (induction xs arbitrary: res w) (simp_all add: split_beta Let_def)

lemma loop_other:
  "c \<notin> set cs \<Longrightarrow> map_of (fst (news_sentiment_loop e limit cs res w)) c = map_of res c"
  by (induction cs arbitrary: res w) (auto simp add: split_beta Let_def update_conv')

lemma loop_keys:
  "fst ` set (fst (news_sentiment_loop e limit cs res w)) = fst ` set res \<union> set cs"
  by (induction cs arbitrary: res w) (auto simp add: split_beta Let_def dom_update)

lemma loop_last_occurrence:
  assumes "k < length cs" and "cs ! k \<notin> set (drop (Suc k) cs)"
  shows "map_of (fst (news_sentiment_loop e limit cs res w)) (cs ! k) =
           Some (JObj (fst (coin_entry e
                  (snd (news_sentiment_loop e limit (take k cs) res w)) (cs ! k) limit)))"
proof -
  obtain res1 w1 where p: "news_sentiment_loop e limit (take k cs) res w = (res1, w1)"
    by (cases "news_sentiment_loop e limit (take k cs) res w")
  obtain entry w2 where c: "coin_entry e w1 (cs ! k) limit = (entry, w2)"
    by (cases "coin_entry e w1 (cs ! k) limit")
  have split: "cs = take k cs @ (cs ! k # drop (Suc k) cs)"
    using assms(1) by (simp add: id_take_nth_drop)
  have "news_sentiment_loop e limit cs res w =
        news_sentiment_loop e limit (cs ! k # drop (Suc k) cs) res1 w1"
    using loop_append [of e limit "take k cs" "cs ! k # drop (Suc k) cs" res w] p split
    by simp
  also have "\<dots> = news_sentiment_loop e limit (drop (Suc k) cs)
                       (AList.update (cs ! k) (JObj entry) res1) w2"
    using c by simp
  finally have "map_of (fst (news_sentiment_loop e limit cs res w)) (cs ! k) =
      map_of (AList.update (cs ! k) (JObj entry) res1) (cs ! k)"
    using loop_other [OF assms(2)] by simp
  then show ?thesis using p c by (simp add: update_conv')
qed

lemma coin_summary_no_error: "map_of (coin_summary rs) ''error'' = None"
  by (simp add: coin_summary_def Let_def)

lemma news_sentiment_try_Inr:
  "fst (news_sentiment_try e w coin limit) = Inr entry \<Longrightarrow> \<exists>rs. entry = coin_summary rs"
  by (auto simp add: news_sentiment_try_def Let_def
      split: http_outcome.splits sum.splits prod.splits)

lemma coin_entry_cases:
  "(case fst (news_sentiment_try e w coin limit) of
      Inl err \<Rightarrow> fst (coin_entry e w coin limit) =
        [(''error'', JStr (''Failed to analyze news sentiment: '' @ str_exc e err)),
         (''articles'', JArr [])]
    | Inr entry \<Rightarrow> fst (coin_entry e w coin limit) = entry \<and> map_of entry ''error'' = None)"
proof (cases "fst (news_sentiment_try e w coin limit)")
  case (Inl err)
  then show ?thesis
    by (cases "news_sentiment_try e w coin limit") (simp add: coin_entry_def)
next
  case (Inr entry)
  from news_sentiment_try_Inr [OF this] have "map_of entry ''error'' = None"
    by (auto simp: coin_summary_no_error)
  with Inr show ?thesis
    by (cases "news_sentiment_try e w coin limit") (simp add: coin_entry_def)
qed

lemma coins_btc_eth: "coin_list_of ''BTC,ETH'' = [''BTC'', ''ETH'']"
  by (simp add: coin_list_of_def strip_def upper_def upper_char_def is_space_def)

lemma coins_btc_btc: "coin_list_of ''btc,BTC'' = [''BTC'', ''BTC'']"
  by (simp add: coin_list_of_def strip_def upper_def upper_char_def is_space_def)

lemma try_btc:
  "fst (news_sentiment_try env_news world0 ''BTC'' 5) = Inl (RequestException ''Connection refused'')"
  by (simp add: news_sentiment_try_def env_news_def env_bull_def env0_def world0_def Let_def)

lemmas eval_defs = news_sentiment_try_def coin_entry_def analyze_news_sentiment_def
  env_news_def env_bull_def env0_def world0_def Let_def
  py_get_def py_iter_def bindE_def article_text_def scored_article_def py_slice100_def py_str_def
  analyze_text_sentiment_def softmax_def store_sentiment_def utcnow_def insert_one_def
  assign_id_def coin_summary_def item_score_def str_exc_def str_int_def
  SENTIMENT_COLLECTION_def

lemma run_dup:
  "fst (analyze_news_sentiment env_news world0 ''btc,BTC'' 5) =
     [(''BTC'', JObj [(''articles'', JArr [JObj
         [(''title'', JStr ''ETH climbs''), (''url'', JStr ''https://example.com/eth''),
          (''published_at'', JStr ''2024-01-01T00:00:00''),
          (''sentiment_score'', JFloat (2 / 5)), (''sentiment_label'', JStr ''positive'')]]),
        (''average_sentiment'', JFloat (2 / 5)),
        (''overall_sentiment'', JStr ''positive'')])]"
  unfolding analyze_news_sentiment_def coins_btc_btc
  by (simp add: eval_defs)

lemma run_two:
  "fst (analyze_news_sentiment env_news world0 ''BTC,ETH'' 5) =
     [(''BTC'', JObj [(''error'', JStr ''Failed to analyze news sentiment: Connection refused''),
                      (''articles'', JArr [])]),
      (''ETH'', JObj [(''articles'', JArr [JObj
         [(''title'', JStr ''ETH climbs''), (''url'', JStr ''https://example.com/eth''),
          (''published_at'', JStr ''2024-01-01T00:00:00''),
          (''sentiment_score'', JFloat (2 / 5)), (''sentiment_label'', JStr ''positive'')]]),
        (''average_sentiment'', JFloat (2 / 5)),
        (''overall_sentiment'', JStr ''positive'')])]"
  unfolding analyze_news_sentiment_def coins_btc_eth
  by (simp add: eval_defs)

text \<open>
  C7, as stated, fails when a coin is requested more than once: \<open>results\<close> is keyed
  by coin, so a later processing of the same coin overwrites what an earlier one left.
  Here the first processing of BTC fails and the second succeeds, and the response holds
  no error field.
\<close>

theorem per_coin_failure_claim_counterexample:
  "coin_list_of ''btc,BTC'' = [''BTC'', ''BTC'']
   \<and> fst (news_sentiment_try env_news world0 ''BTC'' 5) =
       Inl (RequestException ''Connection refused'')
   \<and> fst (analyze_news_sentiment env_news world0 ''btc,BTC'' 5) =
       [(''BTC'', JObj [(''articles'', JArr [JObj
           [(''title'', JStr ''ETH climbs''), (''url'', JStr ''https://example.com/eth''),
            (''published_at'', JStr ''2024-01-01T00:00:00''),
            (''sentiment_score'', JFloat (2 / 5)), (''sentiment_label'', JStr ''positive'')]]),
          (''average_sentiment'', JFloat (2 / 5)),
          (''overall_sentiment'', JStr ''positive'')])]"
  using coins_btc_btc try_btc run_dup by (intro conjI)

text \<open>
  C7, amended: the response has exactly the requested coins as keys, and what a key
  reports is the outcome of the last processing of that coin in the request: when that
  processing raises, an object with an \<open>error\<close> field and an empty \<open>articles\<close> list;
  otherwise the coin's summary, which has no \<open>error\<close> field. The handler itself never
  raises: every coin is processed, whatever happened to the ones before it.
\<close>

theorem per_coin_failure_is_contained:
  "fst ` set (fst (analyze_news_sentiment e w coins limit)) = set (coin_list_of coins)
   \<and> (\<forall>k < length (coin_list_of coins).
         coin_list_of coins ! k \<notin> set (drop (Suc k) (coin_list_of coins)) \<longrightarrow>
         (case fst (news_sentiment_try e
                      (snd (news_sentiment_loop e limit (take k (coin_list_of coins)) [] w))
                      (coin_list_of coins ! k) limit) of
            Inl err \<Rightarrow>
              map_of (fst (analyze_news_sentiment e w coins limit)) (coin_list_of coins ! k) =
                Some (JObj [(''error'',
                               JStr (''Failed to analyze news sentiment: '' @ str_exc e err)),
                            (''articles'', JArr [])])
          | Inr entry \<Rightarrow>
              map_of (fst (analyze_news_sentiment e w coins limit)) (coin_list_of coins ! k) =
                Some (JObj entry)
              \<and> map_of entry ''error'' = None))"
proof (intro conjI allI impI)
  show "fst ` set (fst (analyze_news_sentiment e w coins limit)) = set (coin_list_of coins)"
    by (simp add: analyze_news_sentiment_def loop_keys)
next
  fix k
  let ?cs = "coin_list_of coins"
  let ?wk = "snd (news_sentiment_loop e limit (take k ?cs) [] w)"
  assume k: "k < length ?cs" "?cs ! k \<notin> set (drop (Suc k) ?cs)"
  have r: "map_of (fst (analyze_news_sentiment e w coins limit)) (?cs ! k) =
      Some (JObj (fst (coin_entry e ?wk (?cs ! k) limit)))"
    unfolding analyze_news_sentiment_def by (rule loop_last_occurrence [OF k])
  show "case fst (news_sentiment_try e ?wk (?cs ! k) limit) of
            Inl err \<Rightarrow>
              map_of (fst (analyze_news_sentiment e w coins limit)) (?cs ! k) =
                Some (JObj [(''error'',
                               JStr (''Failed to analyze news sentiment: '' @ str_exc e err)),
                            (''articles'', JArr [])])
          | Inr entry \<Rightarrow>
              map_of (fst (analyze_news_sentiment e w coins limit)) (?cs ! k) =
                Some (JObj entry)
              \<and> map_of entry ''error'' = None"
    using coin_entry_cases [of e ?wk "?cs ! k" limit] r
    by (simp split: sum.splits)
qed

theorem per_coin_failure_is_contained_witness:
  "map_of (fst (analyze_news_sentiment env_news world0 ''BTC,ETH'' 5)) ''BTC'' =
     Some (JObj [(''error'', JStr ''Failed to analyze news sentiment: Connection refused''),
                 (''articles'', JArr [])])
   \<and> fst (analyze_news_sentiment env_news world0 ''BTC,ETH'' 5) =
     [(''BTC'', JObj [(''error'', JStr ''Failed to analyze news sentiment: Connection refused''),
                      (''articles'', JArr [])]),
      (''ETH'', JObj [(''articles'', JArr [JObj
         [(''title'', JStr ''ETH climbs''), (''url'', JStr ''https://example.com/eth''),
          (''published_at'', JStr ''2024-01-01T00:00:00''),
          (''sentiment_score'', JFloat (2 / 5)), (''sentiment_label'', JStr ''positive'')]]),
        (''average_sentiment'', JFloat (2 / 5)),
        (''overall_sentiment'', JStr ''positive'')])]"
proof -
  note t = per_coin_failure_is_contained [of env_news world0 "''BTC,ETH''" 5,
      THEN conjunct2, rule_format, of 0]
  have h1: "0 < length (coin_list_of ''BTC,ETH'')" by (simp add: coins_btc_eth)
  have h2: "coin_list_of ''BTC,ETH'' ! 0 \<notin> set (drop (Suc 0) (coin_list_of ''BTC,ETH''))"
    by (simp add: coins_btc_eth)
  from t [OF h1 h2]
  have "map_of (fst (analyze_news_sentiment env_news world0 ''BTC,ETH'' 5)) ''BTC'' =
     Some (JObj [(''error'', JStr ''Failed to analyze news sentiment: Connection refused''),
                 (''articles'', JArr [])])"
    by (simp add: coins_btc_eth try_btc str_exc_def)
  with run_two show ?thesis by (intro conjI)
qed

section \<open>Labels follow the thresholds (C1)\<close>

lemma analyze_text_label:
  "analyze_text_sentiment e txt = Inr r \<Longrightarrow>
   within_thresholds (sentiment_score r) (sentiment_label r)"
  by (auto simp add: analyze_text_sentiment_def Let_def within_thresholds_def
      split: sum.splits if_splits)

lemma format_item_label:
  assumes "format_item item = Inr item'" and "map_of item ''sentiment_label'' = None"
  shows "\<exists>s l. py_num (doc_get item ''sentiment_score'' (JInt 0)) = Some s
           \<and> map_of item' ''sentiment_label'' = Some (JStr l) \<and> within_thresholds s l"
proof -
  let ?item = "if map_of item ''_id'' \<noteq> None then AList.delete ''_id'' item else item"
  have same: "map_of ?item k = map_of item k" if "k \<noteq> ''_id''" for k
    using that by (simp add: delete_conv')
  have nolabel: "map_of ?item ''sentiment_label'' = None"
    using assms(2) same [of "''sentiment_label''"] by simp
  have score: "(case map_of ?item ''sentiment_score'' of None \<Rightarrow> JInt 0 | Some v \<Rightarrow> v) =
      doc_get item ''sentiment_score'' (JInt 0)"
    using same [of "''sentiment_score''"] by (simp add: doc_get_def)
  from assms(1) nolabel score obtain s where
    s: "py_num (doc_get item ''sentiment_score'' (JInt 0)) = Some s"
    and i: "item' = AList.update ''sentiment_label''
          (JStr (if s > 0.2 then ''positive'' else if s < - 0.2 then ''negative'' else ''neutral''))
          ?item"
    unfolding format_item_def Let_def
    by (cases "py_num (doc_get item ''sentiment_score'' (JInt 0))")
       (simp_all split: if_splits)
  have "within_thresholds s
      (if s > 0.2 then ''positive'' else if s < - 0.2 then ''negative'' else ''neutral'')"
    by (simp add: within_thresholds_def)
  with s i show ?thesis by (auto simp add: update_conv' simp del: AList.delete_eq)
qed

lemma format_history_items:
  "format_history items acc = Inr out \<Longrightarrow>
   \<exists>ys. out = acc @ ys \<and> length ys = length items
        \<and> (\<forall>i < length items. format_item (items ! i) = Inr (ys ! i))"
proof (induction items arbitrary: acc)
  case Nil
  then show ?case by simp
next
  case (Cons item items)
  from Cons.prems obtain it where it: "format_item item = Inr it"
    and rest: "format_history items (acc @ [it]) = Inr out"
    by (cases "format_item item") (simp_all add: bindE_def)
  from Cons.IH [OF rest] obtain ys where ys: "out = (acc @ [it]) @ ys"
    "length ys = length items" "\<forall>i < length items. format_item (items ! i) = Inr (ys ! i)"
    by blast
  have "\<forall>i < length (item # items). format_item ((item # items) ! i) = Inr ((it # ys) ! i)"
    using it ys(3) by (auto simp add: nth_Cons split: nat.splits)
  with ys(1,2) show ?case by (intro exI [of _ "it # ys"]) simp
qed

lemma get_coin_sentiment_Inr:
  assumes "get_coin_sentiment w coin days = Inr resp"
  shows "\<exists>formatted.
           map_of resp ''sentiment_history'' = Some (JArr (map JObj formatted))
         \<and> length formatted = length (get_sentiment_history w (upper coin) (days * 10))
         \<and> (\<forall>i < length formatted.
               format_item (get_sentiment_history w (upper coin) (days * 10) ! i) =
                 Inr (formatted ! i))"
proof (cases "get_sentiment_history w (upper coin) (days * 10) = []")
  case True
  with assms show ?thesis
    by (intro exI [of _ "[]"]) (auto simp add: get_coin_sentiment_def Let_def)
next
  case False
  with assms obtain formatted where
    f: "format_history (get_sentiment_history w (upper coin) (days * 10)) [] = Inr formatted"
    and r: "resp = [(''coin'', JStr (upper coin)),
                    (''sentiment_history'', JArr (map JObj formatted))]"
    by (cases "format_history (get_sentiment_history w (upper coin) (days * 10)) []")
       (simp_all add: get_coin_sentiment_def Let_def bindE_def)
  from format_history_items [OF f] r show ?thesis by auto
qed

lemma chain_within:
  "within_thresholds a
     (if a > 0.2 then ''positive'' else if a < - 0.2 then ''negative'' else ''neutral'')"
  by (simp add: within_thresholds_def)

lemma coin_summary_label:
  assumes "map_of (coin_summary rs) ''overall_sentiment'' = Some (JStr l)"
  shows "\<exists>s. Option.bind (map_of (coin_summary rs) ''average_sentiment'') py_num = Some s
           \<and> within_thresholds s l"
proof (cases "rs = []")
  case True
  with assms have "l = ''neutral''" by (simp add: coin_summary_def)
  with True show ?thesis
    by (simp add: coin_summary_def py_num_def within_thresholds_def)
next
  case False
  define a where "a = sum_list (map item_score rs) / real (length rs)"
  from False have cs: "coin_summary rs =
      [(''articles'', JArr (map JObj rs)), (''average_sentiment'', JFloat a),
       (''overall_sentiment'',
          JStr (if a > 0.2 then ''positive'' else if a < - 0.2 then ''negative''
                else ''neutral''))]"
    by (simp add: coin_summary_def Let_def a_def)
  from assms have "l = (if a > 0.2 then ''positive'' else if a < - 0.2 then ''negative''
                else ''neutral'')"
    unfolding cs by simp
  with chain_within [of a] have "within_thresholds a l" by simp
  moreover have "Option.bind (map_of (coin_summary rs) ''average_sentiment'') py_num = Some a"
    unfolding cs by (simp add: py_num_def)
  ultimately show ?thesis by blast
qed

lemma coin_entry_label:
  assumes "map_of (fst (coin_entry e w coin limit)) ''overall_sentiment'' = Some (JStr l)"
  shows "\<exists>s. Option.bind (map_of (fst (coin_entry e w coin limit)) ''average_sentiment'') py_num
             = Some s \<and> within_thresholds s l"
proof (cases "fst (news_sentiment_try e w coin limit)")
  case (Inl err)
  then have "fst (coin_entry e w coin limit) =
      [(''error'', JStr (''Failed to analyze news sentiment: '' @ str_exc e err)),
       (''articles'', JArr [])]"
    using coin_entry_cases [of e w coin limit] by simp
  with assms show ?thesis by simp
next
  case (Inr entry)
  then have "fst (coin_entry e w coin limit) = entry"
    using coin_entry_cases [of e w coin limit] by simp
  moreover from news_sentiment_try_Inr [OF Inr] obtain rs where "entry = coin_summary rs"
    by blast
  ultimately show ?thesis using assms coin_summary_label by simp
qed

lemma loop_labels:
  assumes "\<forall>c entry l. map_of res c = Some (JObj entry)
              \<and> map_of entry ''overall_sentiment'' = Some (JStr l) \<longrightarrow>
              (\<exists>s. Option.bind (map_of entry ''average_sentiment'') py_num = Some s
                   \<and> within_thresholds s l)"
  shows "\<forall>c entry l. map_of (fst (news_sentiment_loop e limit cs res w)) c = Some (JObj entry)
              \<and> map_of entry ''overall_sentiment'' = Some (JStr l) \<longrightarrow>
              (\<exists>s. Option.bind (map_of entry ''average_sentiment'') py_num = Some s
                   \<and> within_thresholds s l)"
  using assms
proof (induction cs arbitrary: res w)
  case Nil
  then show ?case by simp
next
  case (Cons coin cs)
  obtain entry w1 where c: "coin_entry e w coin limit = (entry, w1)"
    by (cases "coin_entry e w coin limit")
  have "\<forall>c' entry' l. map_of (AList.update coin (JObj entry) res) c' = Some (JObj entry')
              \<and> map_of entry' ''overall_sentiment'' = Some (JStr l) \<longrightarrow>
              (\<exists>s. Option.bind (map_of entry' ''average_sentiment'') py_num = Some s
                   \<and> within_thresholds s l)"
    using Cons.prems coin_entry_label [of e w coin limit] c
    by (auto simp add: update_conv')
  from Cons.IH [OF this] c show ?case by simp
qed

lemma scored_article_fields:
  "scored_article article r = Inr item \<Longrightarrow>
   map_of item ''sentiment_score'' = Some (JFloat (sentiment_score r))
   \<and> map_of item ''sentiment_label'' = Some (JStr (sentiment_label r))"
  by (auto simp add: scored_article_def bindE_def py_get_def split: json.splits)

lemma score_articles_labels:
  assumes "fst (score_articles e w coin arts acc) = Inr rs"
    and "\<forall>item \<in> set acc. \<exists>s l. map_of item ''sentiment_score'' = Some (JFloat s)
           \<and> map_of item ''sentiment_label'' = Some (JStr l) \<and> within_thresholds s l"
  shows "\<forall>item \<in> set rs. \<exists>s l. map_of item ''sentiment_score'' = Some (JFloat s)
           \<and> map_of item ''sentiment_label'' = Some (JStr l) \<and> within_thresholds s l"
  using assms
proof (induction arts arbitrary: w acc)
  case Nil
  then show ?case by simp
next
  case (Cons article arts)
  from Cons.prems(1) obtain t r item where
    r: "analyze_text_sentiment e t = Inr r"
    and i: "scored_article article r = Inr item"
    and rest: "fst (score_articles e (snd (store_sentiment e w coin t (sentiment_score r)))
                 coin arts (acc @ [item])) = Inr rs"
    by (auto simp add: split_beta Let_def split: sum.splits)
  from analyze_text_label [OF r] scored_article_fields [OF i]
  have "\<exists>s l. map_of item ''sentiment_score'' = Some (JFloat s)
           \<and> map_of item ''sentiment_label'' = Some (JStr l) \<and> within_thresholds s l"
    by blast
  with Cons.prems(2)
  have "\<forall>item \<in> set (acc @ [item]). \<exists>s l. map_of item ''sentiment_score'' = Some (JFloat s)
           \<and> map_of item ''sentiment_label'' = Some (JStr l) \<and> within_thresholds s l"
    by auto
  from Cons.IH [OF rest this] show ?case .
qed

lemma news_sentiment_try_scored:
  "fst (news_sentiment_try e w coin limit) = Inr entry \<Longrightarrow>
   \<exists>w1 arts rs w2. score_articles e w1 coin arts [] = (Inr rs, w2) \<and> entry = coin_summary rs"
  by (auto simp add: news_sentiment_try_def Let_def
      split: http_outcome.splits sum.splits prod.splits)

lemma news_sentiment_try_articles:
  assumes "fst (news_sentiment_try e w coin limit) = Inr entry"
  shows "\<exists>rs. entry = coin_summary rs
           \<and> (\<forall>item \<in> set rs. \<exists>s l. map_of item ''sentiment_score'' = Some (JFloat s)
                 \<and> map_of item ''sentiment_label'' = Some (JStr l) \<and> within_thresholds s l)"
proof -
  from news_sentiment_try_scored [OF assms] obtain w1 arts rs w2 where
    sc: "score_articles e w1 coin arts [] = (Inr rs, w2)" and en: "entry = coin_summary rs"
    by blast
  from sc have "fst (score_articles e w1 coin arts []) = Inr rs" by simp
  from score_articles_labels [OF this]
  have "\<forall>item \<in> set rs. \<exists>s l. map_of item ''sentiment_score'' = Some (JFloat s)
                 \<and> map_of item ''sentiment_label'' = Some (JStr l) \<and> within_thresholds s l"
    by simp
  with en show ?thesis by blast
qed

lemma coin_summary_articles:
  "map_of (coin_summary rs) ''articles'' = Some (JArr (map JObj rs))"
  by (simp add: coin_summary_def Let_def)

lemma coin_entry_articles:
  assumes "map_of (fst (coin_entry e w coin limit)) ''articles'' = Some (JArr arts)"
    and "a \<in> set arts"
  shows "\<exists>item s l. a = JObj item \<and> map_of item ''sentiment_score'' = Some (JFloat s)
           \<and> map_of item ''sentiment_label'' = Some (JStr l) \<and> within_thresholds s l"
proof (cases "fst (news_sentiment_try e w coin limit)")
  case (Inl err)
  then have "fst (coin_entry e w coin limit) =
      [(''error'', JStr (''Failed to analyze news sentiment: '' @ str_exc e err)),
       (''articles'', JArr [])]"
    using coin_entry_cases [of e w coin limit] by simp
  with assms show ?thesis by simp
next
  case (Inr entry)
  then have "fst (coin_entry e w coin limit) = entry"
    using coin_entry_cases [of e w coin limit] by simp
  moreover from news_sentiment_try_articles [OF Inr] obtain rs where
    "entry = coin_summary rs"
    "\<forall>item \<in> set rs. \<exists>s l. map_of item ''sentiment_score'' = Some (JFloat s)
                 \<and> map_of item ''sentiment_label'' = Some (JStr l) \<and> within_thresholds s l"
    by blast
  ultimately show ?thesis using assms by (auto simp add: coin_summary_articles)
qed

lemma loop_articles:
  assumes "\<forall>c entry arts a. map_of res c = Some (JObj entry)
              \<and> map_of entry ''articles'' = Some (JArr arts) \<and> a \<in> set arts \<longrightarrow>
              (\<exists>item s l. a = JObj item \<and> map_of item ''sentiment_score'' = Some (JFloat s)
                 \<and> map_of item ''sentiment_label'' = Some (JStr l) \<and> within_thresholds s l)"
  shows "\<forall>c entry arts a.
            map_of (fst (news_sentiment_loop e limit cs res w)) c = Some (JObj entry)
              \<and> map_of entry ''articles'' = Some (JArr arts) \<and> a \<in> set arts \<longrightarrow>
              (\<exists>item s l. a = JObj item \<and> map_of item ''sentiment_score'' = Some (JFloat s)
                 \<and> map_of item ''sentiment_label'' = Some (JStr l) \<and> within_thresholds s l)"
  using assms
proof (induction cs arbitrary: res w)
  case Nil
  then show ?case by simp
next
  case (Cons coin cs)
  obtain entry w1 where c: "coin_entry e w coin limit = (entry, w1)"
    by (cases "coin_entry e w coin limit")
  have "\<forall>c' entry' arts a. map_of (AList.update coin (JObj entry) res) c' = Some (JObj entry')
              \<and> map_of entry' ''articles'' = Some (JArr arts) \<and> a \<in> set arts \<longrightarrow>
              (\<exists>item s l. a = JObj item \<and> map_of item ''sentiment_score'' = Some (JFloat s)
                 \<and> map_of item ''sentiment_label'' = Some (JStr l) \<and> within_thresholds s l)"
  proof (intro allI impI)
    fix c' entry' arts a
    assume h: "map_of (AList.update coin (JObj entry) res) c' = Some (JObj entry')
              \<and> map_of entry' ''articles'' = Some (JArr arts) \<and> a \<in> set arts"
    show "\<exists>item s l. a = JObj item \<and> map_of item ''sentiment_score'' = Some (JFloat s)
                 \<and> map_of item ''sentiment_label'' = Some (JStr l) \<and> within_thresholds s l"
    proof (cases "c' = coin")
      case True
      with h have "entry' = entry" by (simp add: update_conv')
      with h c coin_entry_articles [of e w coin limit arts a] show ?thesis by simp
    next
      case False
      with h have "map_of res c' = Some (JObj entry')" by (simp add: update_conv')
      with h Cons.prems show ?thesis by blast
    qed
  qed
  from Cons.IH [OF this] c show ?case by simp
qed

lemma analyze_sentiment_label:
  assumes "fst (analyze_sentiment e w txt coin) = Inr resp"
  shows "\<exists>s l. map_of resp ''sentiment_score'' = Some (JFloat s)
           \<and> map_of resp ''sentiment_label'' = Some (JStr l) \<and> within_thresholds s l"
proof -
  from assms obtain r where r: "analyze_text_sentiment e txt = Inr r"
    and "resp = [(''coin'', JStr (upper coin)), (''text'', JStr txt),
                 (''sentiment_score'', JFloat (sentiment_score r)),
                 (''sentiment_label'', JStr (sentiment_label r)),
                 (''timestamp'', JStr (isoformat e
                    (fst (utcnow e (snd (store_sentiment e w (upper coin) txt
                       (sentiment_score r)))))))]"
    by (auto simp add: analyze_sentiment_def Let_def split_beta split: sum.splits)
  with analyze_text_label [OF r] show ?thesis by simp
qed

text \<open>
  C1: every sentiment label the system produces obeys the fixed thresholds with respect
  to its score (positive iff the score is above 0.2, negative iff below -0.2, neutral
  otherwise):
  \<^item> the label the scorer returns for a freshly scored text, which the POST handler
    passes on and which each article of the news-sentiment response carries;
  \<^item> the label the history handler gives, on read, to a stored record that has none,
    with respect to the record's stored score (0 when it stores none);
  \<^item> the overall label of a coin in the news-sentiment response, with respect to the
    average it reports.
\<close>

theorem labels_follow_thresholds:
  "(\<forall>r. analyze_text_sentiment e txt = Inr r \<longrightarrow>
        within_thresholds (sentiment_score r) (sentiment_label r))
   \<and> (\<forall>resp. fst (analyze_sentiment e w txt coin) = Inr resp \<longrightarrow>
        (\<exists>s l. map_of resp ''sentiment_score'' = Some (JFloat s)
           \<and> map_of resp ''sentiment_label'' = Some (JStr l) \<and> within_thresholds s l))
   \<and> (\<forall>resp. get_coin_sentiment w coin days = Inr resp \<longrightarrow>
        (\<exists>formatted.
           map_of resp ''sentiment_history'' = Some (JArr (map JObj formatted))
         \<and> length formatted = length (get_sentiment_history w (upper coin) (days * 10))
         \<and> (\<forall>i < length formatted.
               map_of (get_sentiment_history w (upper coin) (days * 10) ! i)
                 ''sentiment_label'' = None \<longrightarrow>
               (\<exists>s l. py_num (doc_get (get_sentiment_history w (upper coin) (days * 10) ! i)
                                ''sentiment_score'' (JInt 0)) = Some s
                  \<and> map_of (formatted ! i) ''sentiment_label'' = Some (JStr l)
                  \<and> within_thresholds s l))))
   \<and> (\<forall>c entry l.
         map_of (fst (analyze_news_sentiment e w coins limit)) c = Some (JObj entry)
         \<and> map_of entry ''overall_sentiment'' = Some (JStr l) \<longrightarrow>
         (\<exists>s. Option.bind (map_of entry ''average_sentiment'') py_num = Some s
              \<and> within_thresholds s l))
   \<and> (\<forall>c entry arts a.
         map_of (fst (analyze_news_sentiment e w coins limit)) c = Some (JObj entry)
         \<and> map_of entry ''articles'' = Some (JArr arts) \<and> a \<in> set arts \<longrightarrow>
         (\<exists>item s l. a = JObj item \<and> map_of item ''sentiment_score'' = Some (JFloat s)
            \<and> map_of item ''sentiment_label'' = Some (JStr l) \<and> within_thresholds s l))"
proof (intro conjI)
  show "\<forall>r. analyze_text_sentiment e txt = Inr r \<longrightarrow>
        within_thresholds (sentiment_score r) (sentiment_label r)"
    using analyze_text_label by blast
  show "\<forall>resp. fst (analyze_sentiment e w txt coin) = Inr resp \<longrightarrow>
        (\<exists>s l. map_of resp ''sentiment_score'' = Some (JFloat s)
           \<and> map_of resp ''sentiment_label'' = Some (JStr l) \<and> within_thresholds s l)"
    using analyze_sentiment_label by blast
  show "\<forall>resp. get_coin_sentiment w coin days = Inr resp \<longrightarrow>
        (\<exists>formatted.
           map_of resp ''sentiment_history'' = Some (JArr (map JObj formatted))
         \<and> length formatted = length (get_sentiment_history w (upper coin) (days * 10))
         \<and> (\<forall>i < length formatted.
               map_of (get_sentiment_history w (upper coin) (days * 10) ! i)
                 ''sentiment_label'' = None \<longrightarrow>
               (\<exists>s l. py_num (doc_get (get_sentiment_history w (upper coin) (days * 10) ! i)
                                ''sentiment_score'' (JInt 0)) = Some s
                  \<and> map_of (formatted ! i) ''sentiment_label'' = Some (JStr l)
                  \<and> within_thresholds s l)))"
  proof (intro allI impI)
    fix resp
    assume "get_coin_sentiment w coin days = Inr resp"
    from get_coin_sentiment_Inr [OF this] obtain formatted where
      f: "map_of resp ''sentiment_history'' = Some (JArr (map JObj formatted))"
        "length formatted = length (get_sentiment_history w (upper coin) (days * 10))"
        "\<forall>i < length formatted.
               format_item (get_sentiment_history w (upper coin) (days * 10) ! i) =
                 Inr (formatted ! i)"
      by blast
    have "\<forall>i < length formatted.
               map_of (get_sentiment_history w (upper coin) (days * 10) ! i)
                 ''sentiment_label'' = None \<longrightarrow>
               (\<exists>s l. py_num (doc_get (get_sentiment_history w (upper coin) (days * 10) ! i)
                                ''sentiment_score'' (JInt 0)) = Some s
                  \<and> map_of (formatted ! i) ''sentiment_label'' = Some (JStr l)
                  \<and> within_thresholds s l)"
      using f(3) format_item_label by blast
    with f(1,2) show "\<exists>formatted.
           map_of resp ''sentiment_history'' = Some (JArr (map JObj formatted))
         \<and> length formatted = length (get_sentiment_history w (upper coin) (days * 10))
         \<and> (\<forall>i < length formatted.
               map_of (get_sentiment_history w (upper coin) (days * 10) ! i)
                 ''sentiment_label'' = None \<longrightarrow>
               (\<exists>s l. py_num (doc_get (get_sentiment_history w (upper coin) (days * 10) ! i)
                                ''sentiment_score'' (JInt 0)) = Some s
                  \<and> map_of (formatted ! i) ''sentiment_label'' = Some (JStr l)
                  \<and> within_thresholds s l))"
      by blast
  qed
  show "\<forall>c entry l.
         map_of (fst (analyze_news_sentiment e w coins limit)) c = Some (JObj entry)
         \<and> map_of entry ''overall_sentiment'' = Some (JStr l) \<longrightarrow>
         (\<exists>s. Option.bind (map_of entry ''average_sentiment'') py_num = Some s
              \<and> within_thresholds s l)"
    unfolding analyze_news_sentiment_def by (rule loop_labels) simp
  show "\<forall>c entry arts a.
         map_of (fst (analyze_news_sentiment e w coins limit)) c = Some (JObj entry)
         \<and> map_of entry ''articles'' = Some (JArr arts) \<and> a \<in> set arts \<longrightarrow>
         (\<exists>item s l. a = JObj item \<and> map_of item ''sentiment_score'' = Some (JFloat s)
            \<and> map_of item ''sentiment_label'' = Some (JStr l) \<and> within_thresholds s l)"
    unfolding analyze_news_sentiment_def by (rule loop_articles) simp
qed

lemma history_btc:
  "get_sentiment_history world_sentiment ''BTC'' 70 =
     [[(''coin'', JStr ''BTC''), (''text'', JStr ''BTC falls''),
       (''sentiment_score'', JFloat (- 1 / 2)), (''timestamp'', JTime 5), (''_id'', JId 0)]]"
  by (simp add: get_sentiment_history_def world_sentiment_def SENTIMENT_COLLECTION_def
      find_sorted_def matches_def sort_desc_def cursor_limit_def)

lemma upper_btc: "upper ''btc'' = ''BTC''"
  by (simp add: upper_def upper_char_def)

lemma coin_sentiment_btc:
  "get_coin_sentiment world_sentiment ''btc'' 7 =
     Inr [(''coin'', JStr ''BTC''),
          (''sentiment_history'', JArr [JObj
             [(''coin'', JStr ''BTC''), (''text'', JStr ''BTC falls''),
              (''sentiment_score'', JFloat (- 1 / 2)), (''timestamp'', JTime 5),
              (''sentiment_label'', JStr ''negative'')]])]"
  unfolding get_coin_sentiment_def upper_btc Let_def
  by (simp add: history_btc format_item_def bindE_def py_num_def)

theorem labels_follow_thresholds_witness:
  "analyze_text_sentiment env_bull ''Bitcoin surges to new highs'' =
     Inr \<lparr>sentiment_score = 2 / 5, sentiment_label = ''positive'',
          raw_scores = (1 / 5, 1 / 5, 3 / 5)\<rparr>
   \<and> within_thresholds (2 / 5) ''positive''
   \<and> get_coin_sentiment world_sentiment ''btc'' 7 =
       Inr [(''coin'', JStr ''BTC''),
            (''sentiment_history'', JArr [JObj
               [(''coin'', JStr ''BTC''), (''text'', JStr ''BTC falls''),
                (''sentiment_score'', JFloat (- 1 / 2)), (''timestamp'', JTime 5),
                (''sentiment_label'', JStr ''negative'')]])]
   \<and> within_thresholds (- 1 / 2) ''negative''"
proof -
  note t = labels_follow_thresholds [of env_bull "''Bitcoin surges to new highs''"
      world_sentiment "''btc''" 7 "''BTC''" 5]
  from t [THEN conjunct1, rule_format, OF analyze_bull]
  have a: "within_thresholds (2 / 5) ''positive''" by simp
  from t [THEN conjunct2, THEN conjunct2, THEN conjunct1, rule_format, OF coin_sentiment_btc]
  have b: "within_thresholds (- 1 / 2) ''negative''"
    by (simp add: within_thresholds_def)
  from a b analyze_bull coin_sentiment_btc show ?thesis by (intro conjI)
qed

section \<open>GET /crypto-news when the provider fails (C4)\<close>



















end
